theory Spec2Isabelle
  imports Main "HOL-Library.AList" "HOL-Library.Multiset"
begin

section \<open>JavaScript values read by the services\<close>

text \<open>
  The score objects are typed \<open>any\<close> at the mapping functions, so a score field is a
  JavaScript number that may be missing. Numbers are integers here (the panels rate each
  criterion with a whole number); \<open>NaN\<close> is kept as a value of its own because \<open>||\<close>
  treats it as falsy. \<open>JUndefined\<close> is a key that is absent from the object.
\<close>

datatype jsnum = JUndefined | JNaN | JNum int

fun truthy :: "jsnum \<Rightarrow> bool" where
  "truthy (JNum n) = (n \<noteq> 0)"
| "truthy JNaN = False"
| "truthy JUndefined = False"

text \<open>The operator \<open>a || b\<close> on such values.\<close>

definition js_or :: "jsnum \<Rightarrow> jsnum \<Rightarrow> jsnum" where
  "js_or a b = (if truthy a then a else b)"

text \<open>
  A string field of a stored document is present or missing; \<open>s || d\<close> keeps a
  non-empty string. A boolean field likewise: \<open>b || false\<close>.
\<close>

fun truthy_str :: "string option \<Rightarrow> bool" where
  "truthy_str None = False"
| "truthy_str (Some s) = (s \<noteq> [])"

definition str_or :: "string option \<Rightarrow> string \<Rightarrow> string" where
  "str_or a d = (case a of None \<Rightarrow> d | Some s \<Rightarrow> if s \<noteq> [] then s else d)"

definition bool_or_false :: "bool option \<Rightarrow> bool" where
  "bool_or_false b = (b = Some True)"

text \<open>Decimal text of a number inside a template string.\<close>

fun show_nat :: "nat \<Rightarrow> string" where
  "show_nat n =
     (if n < 10 then [char_of (48 + n)]
      else show_nat (n div 10) @ [char_of (48 + n mod 10)])"

declare show_nat.simps [simp del]

definition show_int :: "int \<Rightarrow> string" where
  "show_int i = (if i < 0 then CHR ''-'' # show_nat (nat (- i)) else show_nat (nat i))"

fun show_jsnum :: "jsnum \<Rightarrow> string" where
  "show_jsnum JUndefined = ''undefined''"
| "show_jsnum JNaN = ''NaN''"
| "show_jsnum (JNum n) = show_int n"

text \<open>
  Strings are UTF-8 byte strings. The white space of \<open>String.prototype.trim\<close> and of
  \<open>\s\<close> in a regular expression is: tab, line feed, vertical tab, form feed, carriage
  return and space, which are one byte each (\<open>is_space\<close>); U+00A0, which is two bytes
  (\<open>space2\<close>); and U+1680, U+2000 to U+200A, U+2028, U+2029, U+202F, U+205F, U+3000 and
  U+FEFF, which are three bytes each (\<open>space3\<close>).
\<close>

definition is_space :: "char \<Rightarrow> bool" where
  "is_space c = (c \<in> set [CHR 0x09, CHR 0x0A, CHR 0x0B, CHR 0x0C, CHR 0x0D, CHR 0x20])"

definition space2 :: "char \<Rightarrow> char \<Rightarrow> bool" where
  "space2 a b = (a = CHR 0xC2 \<and> b = CHR 0xA0)"

definition space3 :: "char \<Rightarrow> char \<Rightarrow> char \<Rightarrow> bool" where
  "space3 a b c =
     ((a = CHR 0xE1 \<and> b = CHR 0x9A \<and> c = CHR 0x80) \<or>
      (a = CHR 0xE2 \<and> b = CHR 0x80 \<and>
         ((128 \<le> (of_char c :: nat) \<and> (of_char c :: nat) \<le> 138) \<or>
          c \<in> set [CHR 0xA8, CHR 0xA9, CHR 0xAF])) \<or>
      (a = CHR 0xE2 \<and> b = CHR 0x81 \<and> c = CHR 0x9F) \<or>
      (a = CHR 0xE3 \<and> b = CHR 0x80 \<and> c = CHR 0x80) \<or>
      (a = CHR 0xEF \<and> b = CHR 0xBB \<and> c = CHR 0xBF))"

text \<open>
  The white space at the front of a string is dropped. The two tests are parameters
  because the same function serves the end of the string, on the reversed bytes.
\<close>

fun strip_spaces ::
  "(char \<Rightarrow> char \<Rightarrow> bool) \<Rightarrow> (char \<Rightarrow> char \<Rightarrow> char \<Rightarrow> bool) \<Rightarrow> string \<Rightarrow> string" where
  "strip_spaces two three [] = []"
| "strip_spaces two three (a # s) =
     (if is_space a then strip_spaces two three s
      else (case s of
              [] \<Rightarrow> [a]
            | b # s' \<Rightarrow>
                (if two a b then strip_spaces two three s'
                 else (case s' of
                         [] \<Rightarrow> [a, b]
                       | c # s'' \<Rightarrow>
                           (if three a b c then strip_spaces two three s''
                            else a # b # c # s'')))))"

text \<open>\<open>String.prototype.trim\<close>.\<close>

definition trim :: "string \<Rightarrow> string" where
  "trim s = rev (strip_spaces (\<lambda>a b. space2 b a) (\<lambda>a b c. space3 c b a)
                  (rev (strip_spaces space2 space3 s)))"

section \<open>Score objects and the field-mapping layer\<close>

text \<open>
  One record holds every key the two mapping functions read or write. The application
  shape uses \<open>overall\<close> and has no \<open>humanEffort\<close> key; the persisted shape uses
  \<open>humanEffort\<close>.
\<close>

record scores_obj =
  technical :: jsnum
  story :: jsnum
  creativity :: jsnum
  chiangmai :: jsnum
  overall :: jsnum
  humanEffort :: jsnum
  totalScore :: jsnum

text \<open>\<open>mapDatabaseScoresToApp\<close>: a falsy argument gives \<open>undefined\<close>.\<close>

definition mapDatabaseScoresToApp :: "scores_obj option \<Rightarrow> scores_obj option" where
  "mapDatabaseScoresToApp dbScores =
     (case dbScores of
        None \<Rightarrow> None
      | Some db \<Rightarrow> Some
          \<lparr> technical = js_or (technical db) (JNum 0),
            story = js_or (story db) (JNum 0),
            creativity = js_or (creativity db) (JNum 0),
            chiangmai = js_or (chiangmai db) (JNum 0),
            overall = js_or (js_or (humanEffort db) (overall db)) (JNum 0),
            humanEffort = JUndefined,
            totalScore = js_or (totalScore db) (JNum 0) \<rparr>)"

text \<open>\<open>mapAppScoresToDatabase\<close>.\<close>

definition mapAppScoresToDatabase :: "scores_obj \<Rightarrow> scores_obj" where
  "mapAppScoresToDatabase appScores =
     \<lparr> technical = js_or (technical appScores) (JNum 0),
       story = js_or (story appScores) (JNum 0),
       creativity = js_or (creativity appScores) (JNum 0),
       chiangmai = js_or (chiangmai appScores) (JNum 0),
       overall = JUndefined,
       humanEffort = js_or (overall appScores) (JNum 0),
       totalScore = js_or (totalScore appScores) (JNum 0) \<rparr>"

text \<open>
  The invariant of the persisted shape, as the specification words it: the five component
  fields are numbers and \<open>totalScore\<close> is their sum.
\<close>

fun total_consistent :: "scores_obj \<Rightarrow> bool" where
  "total_consistent s =
     (case (technical s, story s, creativity s, chiangmai s, humanEffort s) of
        (JNum a, JNum b, JNum c, JNum d, JNum e) \<Rightarrow> totalScore s = JNum (a + b + c + d + e)
      | _ \<Rightarrow> False)"

fun is_number :: "jsnum \<Rightarrow> bool" where
  "is_number (JNum n) = True"
| "is_number _ = False"

text \<open>A well-formed application record: six numbers, and no \<open>humanEffort\<close> key.\<close>

definition wf_app_scores :: "scores_obj \<Rightarrow> bool" where
  "wf_app_scores x =
     (is_number (technical x) \<and> is_number (story x) \<and> is_number (creativity x) \<and>
      is_number (chiangmai x) \<and> is_number (overall x) \<and> is_number (totalScore x) \<and>
      humanEffort x = JUndefined)"

section \<open>Comment documents and the document store\<close>

text \<open>
  A time in data handed to the store is the sentinel \<open>serverTimestamp()\<close>, which the
  server replaces by its clock, or a time in milliseconds. Stored data holds times only.
\<close>

datatype stamp = ServerTimestamp | At int

record edit_entry =
  editedAt :: stamp
  previousContent :: "string option"
  previousScores :: "scores_obj option"
  editedBy :: string

text \<open>
  A metadata value. \<open>MRounded t\<close> is the number \<open>Math.round((t / 50) * 100)\<close> for a
  \<open>t\<close> so large that the two operations on doubles are not exact.
\<close>

datatype metaval = MStr string | MNum jsnum | MBool bool | MStrs "string list" | MRounded int

text \<open>
  The data of one document of \<open>submissions/{id}/ShortFilmComments\<close>. Every field may be
  missing; times are milliseconds.
\<close>

record comment_doc =
  submissionId :: "string option"
  adminId :: "string option"
  adminName :: "string option"
  adminEmail :: "string option"
  content :: "string option"
  type :: "string option"
  scores :: "scores_obj option"
  metadata :: "(string \<times> metaval) list option"
  createdAt :: "int option"
  updatedAt :: "int option"
  isEdited :: "bool option"
  isDeleted :: "bool option"
  editHistory :: "edit_entry list option"

text \<open>A collection is the list of its documents (identifier, data) in the store's order.\<close>

type_synonym collection = "(string \<times> comment_doc) list"

datatype store_call = AddDoc | GetDoc | UpdateDoc

text \<open>
  What the store decides during one service call: the server time it stamps, the
  identifier it gives a new document, and which calls it rejects (a rejected call throws).
\<close>

record store_env =
  serverTime :: int
  newId :: string
  rejects :: "store_call \<Rightarrow> bool"

datatype error = Error string

definition addDoc :: "store_env \<Rightarrow> collection \<Rightarrow> comment_doc \<Rightarrow> (string \<times> collection) option" where
  "addDoc env coll d =
     (if rejects env AddDoc then None else Some (newId env, coll @ [(newId env, d)]))"

text \<open>\<open>getDoc\<close>: \<open>None\<close> is a throw, \<open>Some None\<close> a snapshot that does not exist.\<close>

definition getDoc :: "store_env \<Rightarrow> collection \<Rightarrow> string \<Rightarrow> comment_doc option option" where
  "getDoc env coll cid = (if rejects env GetDoc then None else Some (map_of coll cid))"

text \<open>The fields that \<open>updateScoringComment\<close> hands to \<open>updateDoc\<close>.\<close>

record comment_update =
  p_content :: string
  p_scores :: scores_obj
  p_updatedAt :: stamp
  p_isEdited :: bool
  p_editHistory :: "edit_entry list"
  p_metadata :: "(string \<times> metaval) list"

text \<open>
  The client checks the data of a write before it sends anything: the sentinel is taken as
  the value of a field or of a field of a nested object, and refused inside an array
  (\<open>serverTimestamp() is not currently supported inside arrays\<close>).
\<close>

definition sentinel_in_array :: "comment_update \<Rightarrow> bool" where
  "sentinel_in_array p = list_ex (\<lambda>e. editedAt e = ServerTimestamp) (p_editHistory p)"

definition resolve :: "store_env \<Rightarrow> stamp \<Rightarrow> int" where
  "resolve env s = (case s of ServerTimestamp \<Rightarrow> serverTime env | At t \<Rightarrow> t)"

definition apply_update :: "store_env \<Rightarrow> comment_update \<Rightarrow> comment_doc \<Rightarrow> comment_doc" where
  "apply_update env p d =
     d\<lparr> content := Some (p_content p),
        scores := Some (p_scores p),
        updatedAt := Some (resolve env (p_updatedAt p)),
        isEdited := Some (p_isEdited p),
        editHistory := Some (p_editHistory p),
        metadata := Some (p_metadata p) \<rparr>"

text \<open>
  \<open>updateDoc\<close> sets the given fields of the document. It throws on data the client
  refuses, on a rejected call and on a missing document.
\<close>

definition updateDoc ::
  "store_env \<Rightarrow> collection \<Rightarrow> string \<Rightarrow> comment_update \<Rightarrow> collection option" where
  "updateDoc env coll cid p =
     (if sentinel_in_array p then None
      else if rejects env UpdateDoc \<or> map_of coll cid = None then None
      else Some (map (\<lambda>(i, d). if i = cid then (i, apply_update env p d) else (i, d)) coll))"

section \<open>Comment write path\<close>

text \<open>
  \<open>addScoringComment\<close>. \<open>collection(db, 'submissions', submissionId,
  'ShortFilmComments')\<close> throws on an empty \<open>submissionId\<close>, which leaves no path of
  a collection; every throw is caught and thrown again as \<open>Failed to add scoring comment\<close>.
\<close>

definition addScoringComment ::
  "store_env \<Rightarrow> collection \<Rightarrow> string \<Rightarrow> string \<Rightarrow> string \<Rightarrow> string \<Rightarrow> scores_obj \<Rightarrow>
   string option \<Rightarrow> (string \<times> metaval) list option \<Rightarrow> error + (string \<times> collection)" where
  "addScoringComment env coll sid aid aname aemail scs cont meta =
     (if sid = [] then Inl (Error ''Failed to add scoring comment'')
      else
        (let dbScores = mapAppScoresToDatabase scs;
             commentData =
               \<lparr> submissionId = Some sid,
                 adminId = Some aid,
                 adminName = Some aname,
                 adminEmail = Some aemail,
                 content = Some (str_or cont ''''),
                 type = Some ''scoring'',
                 scores = Some dbScores,
                 metadata = Some (case meta of None \<Rightarrow> [] | Some m \<Rightarrow> m),
                 createdAt = Some (serverTime env),
                 updatedAt = None,
                 isEdited = Some False,
                 isDeleted = Some False,
                 editHistory = None \<rparr>
         in case addDoc env coll commentData of
              None \<Rightarrow> Inl (Error ''Failed to add scoring comment'')
            | Some r \<Rightarrow> Inr r))"

text \<open>The bullet of the generated text, U+2022, as its three UTF-8 bytes.\<close>

definition bullet :: string where
  "bullet = [CHR 0xE2, CHR 0x80, CHR 0xA2]"

definition score_text :: "scores_obj \<Rightarrow> string" where
  "score_text scs =
     ''Score Assessment (Updated): '' @ show_jsnum (totalScore scs) @ ''/50 points'' @ [CHR 0x0A] @
     bullet @ '' Technical Quality: '' @ show_jsnum (technical scs) @ ''/10'' @ [CHR 0x0A] @
     bullet @ '' Story & Narrative: '' @ show_jsnum (story scs) @ ''/10'' @ [CHR 0x0A] @
     bullet @ '' Creativity & Originality: '' @ show_jsnum (creativity scs) @ ''/10'' @ [CHR 0x0A] @
     bullet @ '' Connection to Chiang Mai: '' @ show_jsnum (chiangmai scs) @ ''/10'' @ [CHR 0x0A] @
     bullet @ '' Overall Impact: '' @ show_jsnum (overall scs) @ ''/10''"

text \<open>
  \<open>Math.round((t / 50) * 100)\<close>. For an integer \<open>t\<close> below \<open>2 ^ 49\<close> in size the
  quotient and the product are within a quarter of \<open>2 * t\<close>, so the rounding gives
  \<open>2 * t\<close>; \<open>undefined\<close> and \<open>NaN\<close> give \<open>NaN\<close>.
\<close>

fun scorePercentage :: "jsnum \<Rightarrow> metaval" where
  "scorePercentage (JNum t) = (if \<bar>t\<bar> < 2 ^ 49 then MNum (JNum (2 * t)) else MRounded t)"
| "scorePercentage JUndefined = MNum JNaN"
| "scorePercentage JNaN = MNum JNaN"

definition history_of :: "comment_doc \<Rightarrow> edit_entry list" where
  "history_of d = (case editHistory d of None \<Rightarrow> [] | Some h \<Rightarrow> h)"

definition metadata_of :: "comment_doc \<Rightarrow> (string \<times> metaval) list" where
  "metadata_of d = (case metadata d of None \<Rightarrow> [] | Some m \<Rightarrow> m)"

text \<open>
  The data that \<open>updateScoringComment\<close> builds from the document it read. The new entry
  of the history carries the sentinel.
\<close>

definition scoring_update ::
  "store_env \<Rightarrow> comment_doc \<Rightarrow> scores_obj \<Rightarrow> string \<Rightarrow> string \<Rightarrow> comment_update" where
  "scoring_update env currentData scs cmts editor =
     \<lparr> p_content = (if trim cmts \<noteq> [] then trim cmts else score_text scs),
       p_scores = mapAppScoresToDatabase scs,
       p_updatedAt = ServerTimestamp,
       p_isEdited = True,
       p_editHistory = history_of currentData @
          [\<lparr> editedAt = ServerTimestamp,
             previousContent = content currentData,
             previousScores = scores currentData,
             editedBy = editor \<rparr>],
       p_metadata = AList.update ''scorePercentage'' (scorePercentage (totalScore scs))
          (AList.update ''actionType'' (MStr ''score_updated'') (metadata_of currentData)) \<rparr>"

text \<open>
  \<open>updateScoringComment\<close>. Every throw inside the body, the \<open>Comment not found\<close> one
  and that of \<open>doc(...)\<close> on a path it refuses included, is caught and thrown again as
  \<open>Failed to update scoring comment\<close>.
\<close>

definition updateScoringComment ::
  "store_env \<Rightarrow> collection \<Rightarrow> string \<Rightarrow> string \<Rightarrow> scores_obj \<Rightarrow> string \<Rightarrow> string \<Rightarrow>
   error + collection" where
  "updateScoringComment env coll sid cid scs cmts editor =
     (case getDoc env coll cid of
        None \<Rightarrow> Inl (Error ''Failed to update scoring comment'')
      | Some None \<Rightarrow> Inl (Error ''Failed to update scoring comment'')
      | Some (Some currentData) \<Rightarrow>
          (case updateDoc env coll cid (scoring_update env currentData scs cmts editor) of
             None \<Rightarrow> Inl (Error ''Failed to update scoring comment'')
           | Some coll' \<Rightarrow> Inr coll'))"

section \<open>Comment read path\<close>

text \<open>
  The comment handed to the caller. Fields copied from the document as they are may be
  missing; \<open>scores\<close> is in the application shape.
\<close>

record comment =
  c_id :: string
  c_submissionId :: "string option"
  c_adminId :: "string option"
  c_adminName :: "string option"
  c_adminEmail :: "string option"
  c_content :: "string option"
  c_type :: "string option"
  c_scores :: "scores_obj option"
  c_metadata :: "(string \<times> metaval) list"
  c_createdAt :: int
  c_updatedAt :: "int option"
  c_isEdited :: bool
  c_isDeleted :: bool

text \<open>
  What the store answers to the three queries of \<open>getComments\<close> during one call:
  \<open>None\<close> is a rejected query (\<open>getDocs\<close> throws), \<open>Some docs\<close> the snapshot.
\<close>

record query_responses =
  filteredQuery :: "collection option"
  simpleQuery :: "collection option"
  unfilteredQuery :: "collection option"

datatype strategy = Filtered | Simple | Unfiltered

text \<open>The cascade of \<open>try\<close> blocks: the first accepted query and its strategy name.\<close>

definition fetch_snapshot :: "query_responses \<Rightarrow> (collection \<times> strategy) option" where
  "fetch_snapshot r =
     (case filteredQuery r of
        Some snap \<Rightarrow> Some (snap, Filtered)
      | None \<Rightarrow>
          (case simpleQuery r of
             Some snap \<Rightarrow> Some (snap, Simple)
           | None \<Rightarrow>
               (case unfilteredQuery r of
                  Some snap \<Rightarrow> Some (snap, Unfiltered)
                | None \<Rightarrow> None)))"

definition required_present :: "comment_doc \<Rightarrow> bool" where
  "required_present d = (truthy_str (adminId d) \<and> truthy_str (adminName d) \<and> truthy_str (type d))"

text \<open>The comment built from one document; \<open>now\<close> is the client clock.\<close>

definition to_comment :: "string \<Rightarrow> int \<Rightarrow> string \<times> comment_doc \<Rightarrow> comment" where
  "to_comment sid now p =
     (case p of (i, d) \<Rightarrow>
        \<lparr> c_id = i,
          c_submissionId = Some (str_or (submissionId d) sid),
          c_adminId = adminId d,
          c_adminName = adminName d,
          c_adminEmail = Some (str_or (adminEmail d) []),
          c_content = Some (str_or (content d) []),
          c_type = type d,
          c_scores = mapDatabaseScoresToApp (scores d),
          c_metadata = metadata_of d,
          c_createdAt = (case createdAt d of None \<Rightarrow> now | Some t \<Rightarrow> t),
          c_updatedAt = updatedAt d,
          c_isEdited = bool_or_false (isEdited d),
          c_isDeleted = bool_or_false (isDeleted d) \<rparr>)"

text \<open>The body of the \<open>forEach\<close>: a document is skipped or pushed.\<close>

definition process_doc :: "strategy \<Rightarrow> string \<Rightarrow> int \<Rightarrow> string \<times> comment_doc \<Rightarrow> comment option" where
  "process_doc strat sid now p =
     (if strat = Unfiltered \<and> isDeleted (snd p) = Some True then None
      else if \<not> required_present (snd p) then None
      else Some (to_comment sid now p))"

text \<open>
  \<open>comments.sort((a, b) => b.createdAt.getTime() - a.createdAt.getTime())\<close>: a stable
  sort, newest first.
\<close>

definition sort_desc :: "comment list \<Rightarrow> comment list" where
  "sort_desc cs = sort_key (\<lambda>c. - c_createdAt c) cs"

text \<open>\<open>getComments\<close> of the service with the fallback strategies.\<close>

definition getComments :: "query_responses \<Rightarrow> int \<Rightarrow> string \<Rightarrow> error + comment list" where
  "getComments r now sid =
     (if sid = [] then Inr []
      else
        (case fetch_snapshot r of
           None \<Rightarrow> Inr []
         | Some (snap, strat) \<Rightarrow>
             if snap = [] then Inr []
             else
               (let comments = List.map_filter (process_doc strat sid now) snap
                in Inr (if strat = Unfiltered \<or> strat = Simple then sort_desc comments
                        else comments))))"

text \<open>
  The second copy of the service has a \<open>getComments\<close> with the filtered query only. An
  empty snapshot makes it fetch the whole collection for its log; any throw is caught
  and thrown again as \<open>Failed to fetch comments\<close>, that of \<open>collection(...)\<close> on an
  empty \<open>submissionId\<close> included. It copies every field as it is.
\<close>

definition to_comment_single :: "int \<Rightarrow> string \<times> comment_doc \<Rightarrow> comment" where
  "to_comment_single now p =
     (case p of (i, d) \<Rightarrow>
        \<lparr> c_id = i,
          c_submissionId = submissionId d,
          c_adminId = adminId d,
          c_adminName = adminName d,
          c_adminEmail = adminEmail d,
          c_content = content d,
          c_type = type d,
          c_scores = mapDatabaseScoresToApp (scores d),
          c_metadata = metadata_of d,
          c_createdAt = (case createdAt d of None \<Rightarrow> now | Some t \<Rightarrow> t),
          c_updatedAt = updatedAt d,
          c_isEdited = bool_or_false (isEdited d),
          c_isDeleted = bool_or_false (isDeleted d) \<rparr>)"

definition getComments_single :: "query_responses \<Rightarrow> int \<Rightarrow> string \<Rightarrow> error + comment list" where
  "getComments_single r now sid =
     (if sid = [] then Inl (Error ''Failed to fetch comments'')
      else
        (case filteredQuery r of
           None \<Rightarrow> Inl (Error ''Failed to fetch comments'')
         | Some snap \<Rightarrow>
             if snap = [] \<and> unfilteredQuery r = None then Inl (Error ''Failed to fetch comments'')
             else Inr (map (to_comment_single now) snap)))"

text \<open>
  When a store holding the collection \<open>coll\<close> accepts a query, its answer holds the
  documents the query asks for: those whose \<open>isDeleted\<close> equals \<open>false\<close> for the two
  filtered queries, newest first for the ordered one, and all documents otherwise. The
  order of an unordered answer, and of equal times in the ordered one, is the store's.
  A document without \<open>createdAt\<close> has no place in that order; \<open>doc_time\<close> gives it
  time 0, and the properties below are about collections in which every document has one.
\<close>

definition not_deleted :: "string \<times> comment_doc \<Rightarrow> bool" where
  "not_deleted p = (isDeleted (snd p) = Some False)"

definition doc_time :: "string \<times> comment_doc \<Rightarrow> int" where
  "doc_time p = (case createdAt (snd p) of None \<Rightarrow> 0 | Some t \<Rightarrow> t)"

definition newest_first :: "collection \<Rightarrow> bool" where
  "newest_first snap = sorted (map (\<lambda>p. - doc_time p) snap)"

definition answers :: "collection \<Rightarrow> query_responses \<Rightarrow> bool" where
  "answers coll r =
     ((case filteredQuery r of None \<Rightarrow> True
        | Some snap \<Rightarrow> mset snap = mset (filter not_deleted coll) \<and> newest_first snap) \<and>
      (case simpleQuery r of None \<Rightarrow> True
        | Some snap \<Rightarrow> mset snap = mset (filter not_deleted coll)) \<and>
      (case unfilteredQuery r of None \<Rightarrow> True
        | Some snap \<Rightarrow> mset snap = mset coll))"

text \<open>The documents a caller is to see: not deleted, with the required fields.\<close>

definition visible :: "string \<times> comment_doc \<Rightarrow> bool" where
  "visible p = (not_deleted p \<and> required_present (snd p))"

definition has_flags :: "collection \<Rightarrow> bool" where
  "has_flags coll = list_all (\<lambda>p. isDeleted (snd p) \<noteq> None \<and> createdAt (snd p) \<noteq> None) coll"

definition newest_first_comments :: "comment list \<Rightarrow> bool" where
  "newest_first_comments cs = sorted (map (\<lambda>c. - c_createdAt c) cs)"

section \<open>Feature films: crew extraction\<close>

text \<open>A guest of the form; every field may be missing.\<close>

record guest =
  g_name :: "string option"
  g_contact :: "string option"
  g_role :: "string option"
  g_otherRole :: "string option"
  g_remarks :: "string option"

text \<open>An entry handed to \<open>createMultipleGuests\<close>.\<close>

record guest_entry =
  name :: string
  contact :: string
  role :: string
  otherRole :: "string option"
  remarks :: string

text \<open>
  The fields of a film that reach the primary document. \<open>otherFields\<close> holds the keys
  the write path only passes through.
\<close>

record film_fields =
  director :: "string option"
  producer :: "string option"
  mainActors :: "string option"
  posterUrl :: "string option"
  trailerUrl :: "string option"
  galleryUrls :: "string list option"
  otherFields :: "(string \<times> metaval) list"

text \<open>The payload of a create or update call; a file object is known by its name.\<close>

record film_data = film_fields +
  guests :: "guest list option"
  posterFile :: "string option"
  trailerFile :: "string option"
  galleryFiles :: "string list option"

text \<open>\<open>s.split(',')\<close>: always at least one piece.\<close>

fun split_comma :: "string \<Rightarrow> string list" where
  "split_comma [] = [[]]"
| "split_comma (c # cs) =
     (if c = CHR '','' then [] # split_comma cs
      else (case split_comma cs of
              [] \<Rightarrow> [[c]]
            | w # ws \<Rightarrow> (c # w) # ws))"

text \<open>\<open>x && x.trim()\<close> as a condition.\<close>

definition has_text :: "string option \<Rightarrow> bool" where
  "has_text x = (case x of None \<Rightarrow> False | Some s \<Rightarrow> s \<noteq> [] \<and> trim s \<noteq> [])"

definition trimmed_or_empty :: "string option \<Rightarrow> string" where
  "trimmed_or_empty x = (case x of None \<Rightarrow> [] | Some s \<Rightarrow> trim s)"

definition guest_to_entry :: "guest \<Rightarrow> guest_entry list" where
  "guest_to_entry g =
     (if has_text (g_name g) then
        [\<lparr> name = trimmed_or_empty (g_name g),
           contact = trimmed_or_empty (g_contact g),
           role = str_or (g_role g) ''Guest'',
           otherRole = (if g_role g = Some ''Other'' then map_option trim (g_otherRole g) else None),
           remarks = trimmed_or_empty (g_remarks g) \<rparr>]
      else [])"

definition plain_entry :: "string \<Rightarrow> string \<Rightarrow> guest_entry" where
  "plain_entry n r = \<lparr> name = n, contact = [], role = r, otherRole = None, remarks = [] \<rparr>"

definition extractCrewMembersFromFilmData :: "'a film_data_scheme \<Rightarrow> guest_entry list" where
  "extractCrewMembersFromFilmData filmData =
     (case guests filmData of
        Some (g # gs) \<Rightarrow> concat (map guest_to_entry (g # gs))
      | _ \<Rightarrow>
          (if has_text (director filmData)
           then [plain_entry (trimmed_or_empty (director filmData)) ''Director''] else []) @
          (if has_text (producer filmData)
           then [plain_entry (trimmed_or_empty (producer filmData)) ''Producer''] else []) @
          (if has_text (mainActors filmData)
           then map (\<lambda>a. plain_entry a ''Actor'')
                  (filter (\<lambda>a. a \<noteq> [])
                     (map trim (split_comma (case mainActors filmData of None \<Rightarrow> [] | Some s \<Rightarrow> s))))
           else []))"

section \<open>Feature films: the store and the write path\<close>

text \<open>The primary document of a film.\<close>

record film_doc = film_fields +
  createdBy :: "string option"
  createdStamp :: "int option"
  updatedStamp :: "int option"

datatype film_call = AddFilm | UpdateFilm | GetFilm | DeleteAllGuests | CreateMultipleGuests

text \<open>A thrown value is an \<open>Error\<close> with its message, or something else.\<close>

datatype thrown = ThrownError string | ThrownOther

text \<open>
  The state of the store: the \<open>films\<close> collection, the guest subcollection of each film,
  and the calls made so far, oldest first.
\<close>

record film_world =
  films :: "(string \<times> film_doc) list"
  guestsOf :: "(string \<times> guest_entry list) list"
  calls :: "film_call list"

text \<open>
  What the surroundings decide during one call: the server time, the identifier of a new
  document, which store calls throw, and what \<open>uploadFile\<close> does with a file of a folder
  (\<open>None\<close> is a throw, \<open>Some url\<close> the address of the stored file).
\<close>

record film_env =
  f_serverTime :: int
  f_newId :: string
  fails :: "film_call \<Rightarrow> thrown option"
  upload :: "string \<Rightarrow> string \<Rightarrow> string option"

record film_result =
  success :: bool
  rdata :: "(string \<times> film_doc) option"
  rerror :: "string option"

definition guests_in :: "film_world \<Rightarrow> string \<Rightarrow> guest_entry list" where
  "guests_in w filmId = (case map_of (guestsOf w) filmId of None \<Rightarrow> [] | Some gs \<Rightarrow> gs)"

definition logged :: "film_call \<Rightarrow> film_world \<Rightarrow> film_world" where
  "logged c w = w\<lparr> calls := calls w @ [c] \<rparr>"

text \<open>
  Modelled from the spec: \<open>deleteAllGuests\<close> of the guest service, which is not among the
  sources. It removes every guest of the film (the subcollection is "deleted in full"); a
  failing call throws and leaves the subcollection as it was.
\<close>

definition deleteAllGuests :: "film_env \<Rightarrow> film_world \<Rightarrow> string \<Rightarrow> thrown + film_world" where
  "deleteAllGuests env w filmId =
     (case fails env DeleteAllGuests of
        Some t \<Rightarrow> Inl t
      | None \<Rightarrow> Inr (w\<lparr> guestsOf := AList.update filmId [] (guestsOf w) \<rparr>))"

text \<open>
  Modelled from the spec: \<open>createMultipleGuests\<close> of the guest service, which is not among
  the sources. It adds the given entries to the guest subcollection of the film
  (the subcollection is "repopulated from the freshly derived list"); a failing call throws
  and adds nothing.
\<close>

definition createMultipleGuests ::
  "film_env \<Rightarrow> film_world \<Rightarrow> string \<Rightarrow> guest_entry list \<Rightarrow> thrown + film_world" where
  "createMultipleGuests env w filmId entries =
     (case fails env CreateMultipleGuests of
        Some t \<Rightarrow> Inl t
      | None \<Rightarrow> Inr (w\<lparr> guestsOf := AList.update filmId (guests_in w filmId @ entries) (guestsOf w) \<rparr>))"

text \<open>\<open>prepareFilmDataForFirestore\<close> after the \<open>guests\<close> key is taken out.\<close>

definition prepareFilmDataForFirestore :: "'a film_data_scheme \<Rightarrow> film_fields" where
  "prepareFilmDataForFirestore filmData =
     \<lparr> director = director filmData,
       producer = producer filmData,
       mainActors = mainActors filmData,
       posterUrl = posterUrl filmData,
       trailerUrl = trailerUrl filmData,
       galleryUrls = galleryUrls filmData,
       otherFields = otherFields filmData \<rparr>"

definition no_fields :: film_fields where
  "no_fields = \<lparr> director = None, producer = None, mainActors = None, posterUrl = None,
       trailerUrl = None, galleryUrls = None, otherFields = [] \<rparr>"

text \<open>The files of a gallery are uploaded in turn; the first throw ends the loop.\<close>

fun upload_all :: "(string \<Rightarrow> string option) \<Rightarrow> string list \<Rightarrow> string list option" where
  "upload_all up [] = Some []"
| "upload_all up (f # fs) =
     (case up f of
        None \<Rightarrow> None
      | Some u \<Rightarrow> (case upload_all up fs of None \<Rightarrow> None | Some us \<Rightarrow> Some (u # us)))"

text \<open>\<open>uploadFeatureFilmFiles\<close>: the new addresses and the collected error texts.\<close>

definition uploadFeatureFilmFiles :: "film_env \<Rightarrow> 'a film_data_scheme \<Rightarrow> film_fields \<times> string list" where
  "uploadFeatureFilmFiles env filmData =
     (let (u1, e1) =
            (case posterFile filmData of
               None \<Rightarrow> (no_fields, [])
             | Some f \<Rightarrow>
                 (case upload env ''posters'' f of
                    Some url \<Rightarrow> (no_fields\<lparr> posterUrl := Some url \<rparr>, [])
                  | None \<Rightarrow> (no_fields, [''Failed to upload poster''])));
          (u2, e2) =
            (case trailerFile filmData of
               None \<Rightarrow> (u1, e1)
             | Some f \<Rightarrow>
                 (case upload env ''trailers'' f of
                    Some url \<Rightarrow> (u1\<lparr> trailerUrl := Some url \<rparr>, e1)
                  | None \<Rightarrow> (u1, e1 @ [''Failed to upload trailer''])))
      in (case galleryFiles filmData of
            Some (f # fs) \<Rightarrow>
              (case upload_all (upload env ''gallery'') (f # fs) of
                 Some urls \<Rightarrow>
                   (u2\<lparr> galleryUrls := Some
                        (filter (\<lambda>url. trim url \<noteq> [])
                           (case galleryUrls filmData of None \<Rightarrow> [] | Some us \<Rightarrow> us) @ urls) \<rparr>, e2)
               | None \<Rightarrow> (u2, e2 @ [''Failed to upload gallery files'']))
          | _ \<Rightarrow> (u2, e2)))"

definition hasFiles :: "'a film_data_scheme \<Rightarrow> bool" where
  "hasFiles filmData =
     (posterFile filmData \<noteq> None \<or> trailerFile filmData \<noteq> None \<or>
      (case galleryFiles filmData of Some (f # fs) \<Rightarrow> True | _ \<Rightarrow> False))"

text \<open>The upload step of both write functions: nothing is uploaded without a file.\<close>

definition fileUploadData :: "film_env \<Rightarrow> 'a film_data_scheme \<Rightarrow> film_fields" where
  "fileUploadData env filmData =
     (if hasFiles filmData then fst (uploadFeatureFilmFiles env filmData) else no_fields)"

text \<open>\<open>Object.keys(updatedData).length > 0\<close>.\<close>

definition has_keys :: "film_fields \<Rightarrow> bool" where
  "has_keys u = (posterUrl u \<noteq> None \<or> trailerUrl u \<noteq> None \<or> galleryUrls u \<noteq> None)"

definition pick :: "'a option \<Rightarrow> 'a option \<Rightarrow> 'a option" where
  "pick new old = (case new of None \<Rightarrow> old | Some v \<Rightarrow> Some v)"

text \<open>\<open>{...a, ...b}\<close> on two sets of fields: a key of \<open>b\<close> wins.\<close>

definition overlay :: "film_fields \<Rightarrow> film_fields \<Rightarrow> film_fields" where
  "overlay a b =
     \<lparr> director = pick (director b) (director a),
       producer = pick (producer b) (producer a),
       mainActors = pick (mainActors b) (mainActors a),
       posterUrl = pick (posterUrl b) (posterUrl a),
       trailerUrl = pick (trailerUrl b) (trailerUrl a),
       galleryUrls = pick (galleryUrls b) (galleryUrls a),
       otherFields = fold (\<lambda>(k, v). AList.update k v) (otherFields b) (otherFields a) \<rparr>"

text \<open>What \<open>updateDoc\<close> does to a stored film: the given keys are set, with the stamp.\<close>

definition merge_doc :: "film_fields \<Rightarrow> int \<Rightarrow> film_doc \<Rightarrow> film_doc" where
  "merge_doc u t d =
     d\<lparr> director := pick (director u) (director d),
        producer := pick (producer u) (producer d),
        mainActors := pick (mainActors u) (mainActors d),
        posterUrl := pick (posterUrl u) (posterUrl d),
        trailerUrl := pick (trailerUrl u) (trailerUrl d),
        galleryUrls := pick (galleryUrls u) (galleryUrls d),
        otherFields := fold (\<lambda>(k, v). AList.update k v) (otherFields u) (otherFields d),
        updatedStamp := Some t \<rparr>"

text \<open>The three calls on the primary document; each one is logged, and may throw.\<close>

definition addFilm :: "film_env \<Rightarrow> film_world \<Rightarrow> film_doc \<Rightarrow> thrown + (string \<times> film_world)" where
  "addFilm env w d =
     (case fails env AddFilm of
        Some t \<Rightarrow> Inl t
      | None \<Rightarrow> Inr (f_newId env, w\<lparr> films := films w @ [(f_newId env, d)] \<rparr>))"

definition updateFilm :: "film_env \<Rightarrow> film_world \<Rightarrow> string \<Rightarrow> film_fields \<Rightarrow> thrown + film_world" where
  "updateFilm env w filmId u =
     (case fails env UpdateFilm of
        Some t \<Rightarrow> Inl t
      | None \<Rightarrow>
          if map_of (films w) filmId = None then Inl (ThrownError ''No document to update'')
          else Inr (w\<lparr> films := map (\<lambda>(i, d). if i = filmId then (i, merge_doc u (f_serverTime env) d)
                                               else (i, d)) (films w) \<rparr>))"

definition getFilm :: "film_env \<Rightarrow> film_world \<Rightarrow> string \<Rightarrow> thrown + film_doc option" where
  "getFilm env w filmId =
     (case fails env GetFilm of
        Some t \<Rightarrow> Inl t
      | None \<Rightarrow> Inr (map_of (films w) filmId))"

text \<open>\<open>error instanceof Error ? error.message : fallback\<close> in a failure result.\<close>

definition failure :: "thrown \<Rightarrow> string \<Rightarrow> film_result" where
  "failure t fallback =
     \<lparr> success = False, rdata = None,
       rerror = Some (case t of ThrownError m \<Rightarrow> m | ThrownOther \<Rightarrow> fallback) \<rparr>"

text \<open>The end of both functions: the document is read back.\<close>

definition read_back :: "film_env \<Rightarrow> film_world \<Rightarrow> string \<Rightarrow> string \<Rightarrow> string \<Rightarrow> film_result \<times> film_world" where
  "read_back env w filmId missing fallback =
     (case getFilm env w filmId of
        Inl t \<Rightarrow> (failure t fallback, logged GetFilm w)
      | Inr None \<Rightarrow> (\<lparr> success = False, rdata = None, rerror = Some missing \<rparr>, logged GetFilm w)
      | Inr (Some d) \<Rightarrow>
          (\<lparr> success = True, rdata = Some (filmId, d), rerror = None \<rparr>, logged GetFilm w))"

text \<open>The guest part of \<open>createFeatureFilm\<close>: a throw is caught and dropped.\<close>

definition create_guests :: "film_env \<Rightarrow> film_world \<Rightarrow> string \<Rightarrow> guest_entry list \<Rightarrow> film_world" where
  "create_guests env w filmId crewMembers =
     (if crewMembers \<noteq> [] then
        (case createMultipleGuests env w filmId crewMembers of
           Inl t \<Rightarrow> logged CreateMultipleGuests w
         | Inr w' \<Rightarrow> logged CreateMultipleGuests w')
      else w)"

text \<open>The guest part of \<open>updateFeatureFilm\<close>: delete all, then create; a throw is caught and dropped.\<close>

definition resync_guests :: "film_env \<Rightarrow> film_world \<Rightarrow> string \<Rightarrow> guest_entry list \<Rightarrow> film_world" where
  "resync_guests env w filmId crewMembers =
     (case deleteAllGuests env w filmId of
        Inl t \<Rightarrow> logged DeleteAllGuests w
      | Inr w1 \<Rightarrow>
          (if crewMembers \<noteq> [] then
             (case createMultipleGuests env (logged DeleteAllGuests w1) filmId crewMembers of
                Inl t \<Rightarrow> logged CreateMultipleGuests (logged DeleteAllGuests w1)
              | Inr w2 \<Rightarrow> logged CreateMultipleGuests w2)
           else logged DeleteAllGuests w1))"

text \<open>\<open>createFeatureFilm\<close>.\<close>

definition createFeatureFilm ::
  "film_env \<Rightarrow> film_world \<Rightarrow> 'a film_data_scheme \<Rightarrow> string \<Rightarrow> film_result \<times> film_world" where
  "createFeatureFilm env w filmData userId =
     (let cleanFilmData = prepareFilmDataForFirestore filmData;
          docData = \<lparr> director = director cleanFilmData,
                      producer = producer cleanFilmData,
                      mainActors = mainActors cleanFilmData,
                      posterUrl = posterUrl cleanFilmData,
                      trailerUrl = trailerUrl cleanFilmData,
                      galleryUrls = galleryUrls cleanFilmData,
                      otherFields = otherFields cleanFilmData,
                      createdBy = Some userId,
                      createdStamp = Some (f_serverTime env),
                      updatedStamp = Some (f_serverTime env) \<rparr>
      in case addFilm env w docData of
           Inl t \<Rightarrow> (failure t ''Failed to create film'', logged AddFilm w)
         | Inr (filmId, w0) \<Rightarrow>
             (let w1 = logged AddFilm w0;
                  updatedData = fileUploadData env filmData;
                  written = (if hasFiles filmData \<and> has_keys updatedData
                             then (case updateFilm env w1 filmId updatedData of
                                     Inl t \<Rightarrow> Inl t
                                   | Inr w' \<Rightarrow> Inr (logged UpdateFilm w'))
                             else Inr w1)
              in case written of
                   Inl t \<Rightarrow> (failure t ''Failed to create film'', logged UpdateFilm w1)
                 | Inr w2 \<Rightarrow>
                     read_back env
                       (create_guests env w2 filmId (extractCrewMembersFromFilmData filmData))
                       filmId ''Film created but could not retrieve data'' ''Failed to create film''))"

text \<open>
  \<open>updateFeatureFilm\<close>. Its optional user identifier only enters the upload path, which
  is part of what \<open>upload\<close> decides.
\<close>

definition updateFeatureFilm ::
  "film_env \<Rightarrow> film_world \<Rightarrow> string \<Rightarrow> 'a film_data_scheme \<Rightarrow> film_result \<times> film_world" where
  "updateFeatureFilm env w filmId filmData =
     (let cleanFilmData = prepareFilmDataForFirestore filmData;
          updateData = overlay cleanFilmData (fileUploadData env filmData)
      in case updateFilm env w filmId updateData of
           Inl t \<Rightarrow> (failure t ''Failed to update film in films collection'', logged UpdateFilm w)
         | Inr w0 \<Rightarrow>
             read_back env
               (resync_guests env (logged UpdateFilm w0) filmId (extractCrewMembersFromFilmData filmData))
               filmId ''Film not found in films collection after update''
               ''Failed to update film in films collection'')"

section \<open>Feature films: legacy conversion\<close>

text \<open>
  \<open>convertLegacyToEnhanced\<close> takes \<open>any\<close>: the data of a document of the \<open>films\<close>
  collection as the store returns it. A field is therefore any stored value: missing,
  null, a boolean, a number (an integer here, or \<open>NaN\<close>), a string, an array, a store
  timestamp (the only value with a \<open>toDate\<close> method), a date, or some other object,
  which has none of the properties the function reads.
\<close>

datatype jsv =
  VUndefined | VNull | VBool bool | VNum int | VNaN | VStr string | VArr "jsv list"
  | VTimestamp int | VDate int | VObject

fun truthy_v :: "jsv \<Rightarrow> bool" where
  "truthy_v VUndefined = False"
| "truthy_v VNull = False"
| "truthy_v (VBool b) = b"
| "truthy_v (VNum n) = (n \<noteq> 0)"
| "truthy_v VNaN = False"
| "truthy_v (VStr s) = (s \<noteq> [])"
| "truthy_v (VArr xs) = True"
| "truthy_v (VTimestamp t) = True"
| "truthy_v (VDate t) = True"
| "truthy_v VObject = True"

definition v_or :: "jsv \<Rightarrow> jsv \<Rightarrow> jsv" where
  "v_or a b = (if truthy_v a then a else b)"

record legacy_film =
  l_id :: jsv
  l_titleEn :: jsv
  l_title :: jsv
  l_titleTh :: jsv
  l_synopsis :: jsv
  l_director :: jsv
  l_duration :: jsv
  l_releaseYear :: jsv
  l_languages :: jsv
  l_language :: jsv
  l_format :: jsv
  l_aspectRatio :: jsv
  l_soundFormat :: jsv
  l_genres :: jsv
  l_genre :: jsv
  l_countries :: jsv
  l_country :: jsv
  l_rating :: jsv
  l_posterUrl :: jsv
  l_trailerUrl :: jsv
  l_galleryUrls :: jsv
  l_mainActors :: jsv
  l_producer :: jsv
  l_screeningDate1 :: jsv
  l_timeEstimate :: jsv
  l_theatre :: jsv
  l_status :: jsv
  l_featured :: jsv
  l_createdAt :: jsv
  l_updatedAt :: jsv
  l_createdBy :: jsv
  l_updatedBy :: jsv
  l_tags :: jsv
  l_slug :: jsv
  l_metaDescription :: jsv

record file_metadata =
  f_url :: jsv
  f_name :: string
  f_size :: int
  f_type :: string
  f_uploadedAt :: jsv
  f_uploadedBy :: jsv

record film_files =
  poster :: "file_metadata option"
  trailer :: "file_metadata option"
  stills :: "file_metadata list option"

record cast_entry =
  cast_name :: string
  cast_role :: string
  character :: string

record crew_entry =
  crew_name :: jsv
  crew_role :: string
  department :: string

text \<open>A screening; its date is \<open>new Date(v)\<close>, kept as the value \<open>v\<close> it is built from.\<close>

record screening =
  s_date :: jsv
  s_time :: jsv
  venue :: jsv

text \<open>
  The enhanced film. A field that the code fills with a stored value or a default holds
  whatever value that expression gives.
\<close>

record enhanced_film =
  e_id :: jsv
  e_title :: jsv
  e_titleTh :: jsv
  e_synopsis :: jsv
  e_synopsisTh :: jsv
  e_director :: jsv
  e_directorTh :: jsv
  e_duration :: jsv
  e_releaseYear :: jsv
  e_language :: "jsv list"
  e_subtitles :: "jsv list"
  e_format :: jsv
  e_aspectRatio :: jsv
  e_soundFormat :: jsv
  e_genres :: "jsv list"
  e_country :: jsv
  e_rating :: jsv
  e_files :: film_files
  e_cast :: "cast_entry list"
  e_crew :: "crew_entry list"
  e_screenings :: "screening list option"
  e_status :: string
  e_featured :: jsv
  e_createdAt :: jsv
  e_updatedAt :: jsv
  e_createdBy :: jsv
  e_updatedBy :: jsv
  e_tags :: jsv
  e_slug :: jsv
  e_metaDescription :: jsv

text \<open>
  \<open>generateSlug\<close>, one function for each method call of the chain, on UTF-8 text.
  \<open>toLowerCase\<close> turns \<open>A\<close> to \<open>Z\<close>, the Kelvin sign (U+212A) and the dotted capital
  I (U+0130) into text with the letters \<open>a\<close> to \<open>z\<close>; every other character that it
  changes stays outside ASCII, where the next step removes it, so it is left as it is here.
\<close>

definition to_lower :: "char \<Rightarrow> char" where
  "to_lower c = (let n = (of_char c :: nat) in if 65 \<le> n \<and> n \<le> 90 then char_of (n + 32) else c)"

fun lower_case :: "string \<Rightarrow> string" where
  "lower_case [] = []"
| "lower_case (a # s) =
     (case s of
        [] \<Rightarrow> [to_lower a]
      | b # s' \<Rightarrow>
          (if a = CHR 0xC4 \<and> b = CHR 0xB0 then CHR ''i'' # CHR 0xCC # CHR 0x87 # lower_case s'
           else (case s' of
                   [] \<Rightarrow> to_lower a # lower_case s
                 | c # s'' \<Rightarrow>
                     (if a = CHR 0xE2 \<and> b = CHR 0x84 \<and> c = CHR 0xAA then CHR ''k'' # lower_case s''
                      else to_lower a # lower_case s))))"

text \<open>\<open>replace(/[^a-z0-9\s-]/g, '')\<close>: a byte of any other character is dropped.\<close>

definition slug_char :: "char \<Rightarrow> bool" where
  "slug_char c =
     (let n = (of_char c :: nat)
      in (97 \<le> n \<and> n \<le> 122) \<or> (48 \<le> n \<and> n \<le> 57) \<or> is_space c \<or> c = CHR ''-'')"

fun keep_slug_chars :: "string \<Rightarrow> string" where
  "keep_slug_chars [] = []"
| "keep_slug_chars (a # s) =
     (if slug_char a then a # keep_slug_chars s
      else (case s of
              [] \<Rightarrow> []
            | b # s' \<Rightarrow>
                (if space2 a b then a # b # keep_slug_chars s'
                 else (case s' of
                         [] \<Rightarrow> keep_slug_chars s
                       | c # s'' \<Rightarrow>
                           (if space3 a b c then a # b # c # keep_slug_chars s''
                            else keep_slug_chars s)))))"

text \<open>\<open>replace(/\s+/g, '-')\<close>; \<open>prev\<close> says that the character before was white space.\<close>

fun spaces_to_hyphen :: "bool \<Rightarrow> string \<Rightarrow> string" where
  "spaces_to_hyphen prev [] = []"
| "spaces_to_hyphen prev (a # s) =
     (if is_space a then (if prev then [] else [CHR ''-'']) @ spaces_to_hyphen True s
      else (case s of
              [] \<Rightarrow> [a]
            | b # s' \<Rightarrow>
                (if space2 a b then (if prev then [] else [CHR ''-'']) @ spaces_to_hyphen True s'
                 else (case s' of
                         [] \<Rightarrow> a # spaces_to_hyphen False s
                       | c # s'' \<Rightarrow>
                           (if space3 a b c
                            then (if prev then [] else [CHR ''-'']) @ spaces_to_hyphen True s''
                            else a # spaces_to_hyphen False s)))))"

text \<open>\<open>replace(/-+/g, '-')\<close>.\<close>

fun squeeze_hyphens :: "bool \<Rightarrow> string \<Rightarrow> string" where
  "squeeze_hyphens prev [] = []"
| "squeeze_hyphens prev (c # cs) =
     (if c = CHR ''-'' then (if prev then squeeze_hyphens True cs else c # squeeze_hyphens True cs)
      else c # squeeze_hyphens False cs)"

definition generateSlug :: "string \<Rightarrow> string" where
  "generateSlug title =
     trim (squeeze_hyphens False (spaces_to_hyphen False (keep_slug_chars (lower_case title))))"

definition accepted_status :: string where
  "accepted_status =
     [CHR 0xE0, CHR 0xB8, CHR 0x95, CHR 0xE0, CHR 0xB8, CHR 0xAD, CHR 0xE0, CHR 0xB8, CHR 0x9A,
      CHR 0xE0, CHR 0xB8, CHR 0xA3, CHR 0xE0, CHR 0xB8, CHR 0xB1, CHR 0xE0, CHR 0xB8, CHR 0x9A] @
     '' / Accepted''"

text \<open>A call of a method that the value does not have throws a \<open>TypeError\<close>.\<close>

datatype type_error = TypeError string

text \<open>
  \<open>v?.toDate ? v.toDate() : (v || new Date())\<close>: only a store timestamp has \<open>toDate\<close>.
\<close>

definition to_date :: "jsv \<Rightarrow> int \<Rightarrow> jsv" where
  "to_date v now = (case v of VTimestamp t \<Rightarrow> VDate t | _ \<Rightarrow> v_or v (VDate now))"

definition legacy_file :: "legacy_film \<Rightarrow> int \<Rightarrow> jsv \<Rightarrow> string \<Rightarrow> string \<Rightarrow> file_metadata" where
  "legacy_file legacyData now u n ty =
     \<lparr> f_url = u, f_name = n, f_size = 0, f_type = ty,
       f_uploadedAt = v_or (l_createdAt legacyData) (VDate now),
       f_uploadedBy = v_or (l_createdBy legacyData) (VStr ''unknown'') \<rparr>"

text \<open>
  \<open>galleryUrls && galleryUrls.length > 0 ? galleryUrls.map(...) : undefined\<close>. A
  non-empty string has a positive \<open>length\<close> and no \<open>map\<close>.
\<close>

definition legacy_stills :: "legacy_film \<Rightarrow> int \<Rightarrow> type_error + file_metadata list option" where
  "legacy_stills legacyData now =
     (case l_galleryUrls legacyData of
        VArr (u # us) \<Rightarrow>
          Inr (Some (map (\<lambda>(index, url). legacy_file legacyData now url
                            (''still_'' @ show_nat (index + 1)) ''image/jpeg'')
                      (enumerate 0 (u # us))))
      | VStr s \<Rightarrow>
          (if s = [] then Inr None
           else Inl (TypeError ''legacyData.galleryUrls.map is not a function''))
      | _ \<Rightarrow> Inr None)"

text \<open>\<open>mainActors ? mainActors.split(',').map(...) : []\<close>. Only a string has \<open>split\<close>.\<close>

definition legacy_cast :: "legacy_film \<Rightarrow> type_error + cast_entry list" where
  "legacy_cast legacyData =
     (case l_mainActors legacyData of
        VStr s \<Rightarrow>
          (if s = [] then Inr []
           else Inr (map (\<lambda>actor. \<lparr> cast_name = trim actor, cast_role = ''Actor'', character = [] \<rparr>)
                       (split_comma s)))
      | v \<Rightarrow>
          (if truthy_v v then Inl (TypeError ''legacyData.mainActors.split is not a function'')
           else Inr []))"

text \<open>
  \<open>slug || generateSlug(titleEn || title || 'untitled')\<close>. \<open>generateSlug\<close> calls
  \<open>toLowerCase\<close> on its argument, which only a string has.
\<close>

definition legacy_slug :: "legacy_film \<Rightarrow> type_error + jsv" where
  "legacy_slug legacyData =
     (if truthy_v (l_slug legacyData) then Inr (l_slug legacyData)
      else (case v_or (l_titleEn legacyData) (v_or (l_title legacyData) (VStr ''untitled'')) of
              VStr s \<Rightarrow> Inr (VStr (generateSlug s))
            | _ \<Rightarrow> Inl (TypeError ''title.toLowerCase is not a function'')))"

text \<open>
  \<open>convertLegacyToEnhanced\<close>; \<open>now\<close> and \<open>year\<close> are what \<open>new Date()\<close> gives. The
  object literal is evaluated from top to bottom, so the first throw is that of the stills,
  then that of the cast, then that of the slug.
\<close>

definition convertLegacyToEnhanced :: "int \<Rightarrow> int \<Rightarrow> legacy_film \<Rightarrow> type_error + enhanced_film" where
  "convertLegacyToEnhanced now year legacyData =
     (case legacy_stills legacyData now of
        Inl err \<Rightarrow> Inl err
      | Inr stillsValue \<Rightarrow>
     (case legacy_cast legacyData of
        Inl err \<Rightarrow> Inl err
      | Inr castValue \<Rightarrow>
     (case legacy_slug legacyData of
        Inl err \<Rightarrow> Inl err
      | Inr slugValue \<Rightarrow> Inr
     \<lparr> e_id = l_id legacyData,
       e_title = v_or (l_titleEn legacyData) (v_or (l_title legacyData) (VStr ''Untitled'')),
       e_titleTh = l_titleTh legacyData,
       e_synopsis = v_or (l_synopsis legacyData) (VStr []),
       e_synopsisTh = VUndefined,
       e_director = v_or (l_director legacyData) (VStr ''Unknown''),
       e_directorTh = VUndefined,
       e_duration = v_or (l_duration legacyData) (VNum 120),
       e_releaseYear = v_or (l_releaseYear legacyData) (VNum year),
       e_language =
         (case l_languages legacyData of
            VArr ls \<Rightarrow> ls
          | _ \<Rightarrow> (if truthy_v (l_language legacyData) then [l_language legacyData]
                   else [VStr ''Unknown''])),
       e_subtitles = [],
       e_format = v_or (l_format legacyData) (VStr ''Digital''),
       e_aspectRatio = v_or (l_aspectRatio legacyData) (VStr ''16:9''),
       e_soundFormat = v_or (l_soundFormat legacyData) (VStr ''Stereo''),
       e_genres =
         (case l_genres legacyData of
            VArr gs \<Rightarrow> gs
          | _ \<Rightarrow> (if truthy_v (l_genre legacyData) then [l_genre legacyData] else [])),
       e_country =
         (case l_countries legacyData of
            VArr cs \<Rightarrow> (case cs of [] \<Rightarrow> VUndefined | c # rest \<Rightarrow> c)
          | _ \<Rightarrow> v_or (l_country legacyData) (VStr ''Unknown'')),
       e_rating = l_rating legacyData,
       e_files =
         \<lparr> poster =
             (if truthy_v (l_posterUrl legacyData)
              then Some (legacy_file legacyData now (l_posterUrl legacyData) ''poster'' ''image/jpeg'')
              else None),
           trailer =
             (if truthy_v (l_trailerUrl legacyData)
              then Some (legacy_file legacyData now (l_trailerUrl legacyData) ''trailer'' ''video/mp4'')
              else None),
           stills = stillsValue \<rparr>,
       e_cast = castValue,
       e_crew =
         \<lparr> crew_name = v_or (l_director legacyData) (VStr ''Unknown''),
           crew_role = ''Director'', department = ''Direction'' \<rparr> #
         (if truthy_v (l_producer legacyData)
          then [\<lparr> crew_name = l_producer legacyData,
                  crew_role = ''Producer'', department = ''Production'' \<rparr>]
          else []),
       e_screenings =
         (if truthy_v (l_screeningDate1 legacyData)
          then Some [\<lparr> s_date = l_screeningDate1 legacyData,
                       s_time = v_or (l_timeEstimate legacyData) (VStr []),
                       venue = v_or (l_theatre legacyData) (VStr ''TBD'') \<rparr>]
          else None),
       e_status = (if l_status legacyData = VStr accepted_status then ''published'' else ''draft''),
       e_featured = v_or (l_featured legacyData) (VBool False),
       e_createdAt = to_date (l_createdAt legacyData) now,
       e_updatedAt = to_date (l_updatedAt legacyData) now,
       e_createdBy = v_or (l_createdBy legacyData) (VStr ''unknown''),
       e_updatedBy = v_or (l_updatedBy legacyData)
                       (v_or (l_createdBy legacyData) (VStr ''unknown'')),
       e_tags = v_or (l_tags legacyData) (VArr []),
       e_slug = slugValue,
       e_metaDescription = l_metaDescription legacyData \<rparr>)))"

text \<open>
  The stored shapes on which no method call of the conversion is missing: \<open>galleryUrls\<close>
  is not a non-empty string, \<open>mainActors\<close> is a string or falsy, and the text the slug
  is made from is a string unless the film has a slug.
\<close>

definition convertible :: "legacy_film \<Rightarrow> bool" where
  "convertible L =
     ((case l_galleryUrls L of VStr s \<Rightarrow> s = [] | _ \<Rightarrow> True) \<and>
      (case l_mainActors L of VStr s \<Rightarrow> True | v \<Rightarrow> \<not> truthy_v v) \<and>
      (truthy_v (l_slug L) \<or>
       (case v_or (l_titleEn L) (v_or (l_title L) (VStr ''untitled'')) of
          VStr s \<Rightarrow> True | _ \<Rightarrow> False)))"

section \<open>Notions used to state the properties\<close>

text \<open>
  The sum invariant on the application shape, where the fifth component is \<open>overall\<close>.
\<close>

fun app_total_consistent :: "scores_obj \<Rightarrow> bool" where
  "app_total_consistent s =
     (case (technical s, story s, creativity s, chiangmai s, overall s) of
        (JNum a, JNum b, JNum c, JNum d, JNum e) \<Rightarrow> totalScore s = JNum (a + b + c + d + e)
      | _ \<Rightarrow> False)"

text \<open>A stored field that is present and a number other than zero.\<close>

fun present_nonzero :: "jsnum \<Rightarrow> bool" where
  "present_nonzero (JNum n) = (n \<noteq> 0)"
| "present_nonzero _ = False"

text \<open>
  Successive calls of \<open>updateScoringComment\<close> on one comment: each call has its own
  store decisions and arguments, and the run stops at the first call that throws.
\<close>

record update_call =
  u_env :: store_env
  u_scores :: scores_obj
  u_comments :: string
  u_editedBy :: string

fun run_updates :: "collection \<Rightarrow> string \<Rightarrow> string \<Rightarrow> update_call list \<Rightarrow> error + collection" where
  "run_updates coll sid cid [] = Inr coll"
| "run_updates coll sid cid (c # cs) =
     (case updateScoringComment (u_env c) coll sid cid (u_scores c) (u_comments c) (u_editedBy c) of
        Inl e \<Rightarrow> Inl e
      | Inr coll' \<Rightarrow> run_updates coll' sid cid cs)"

text \<open>The documents a strategy of \<open>getComments\<close> pushes.\<close>

definition keeps :: "strategy \<Rightarrow> string \<times> comment_doc \<Rightarrow> bool" where
  "keeps strat p = (\<not> (strat = Unfiltered \<and> isDeleted (snd p) = Some True) \<and> required_present (snd p))"

text \<open>
  The surroundings of a film call with the outcome of the two guest calls replaced:
  \<open>x\<close> for \<open>deleteAllGuests\<close>, \<open>y\<close> for \<open>createMultipleGuests\<close>.
\<close>

definition guests_fail :: "film_env \<Rightarrow> thrown option \<Rightarrow> thrown option \<Rightarrow> film_env" where
  "guests_fail env x y =
     env\<lparr> fails := (\<lambda>c. if c = DeleteAllGuests then x
                         else if c = CreateMultipleGuests then y else fails env c) \<rparr>"

section \<open>Concrete inputs\<close>

definition app0 :: scores_obj where
  "app0 = \<lparr> technical = JNum 8, story = JNum 7, creativity = JNum 9, chiangmai = JNum 6,
       overall = JNum 5, humanEffort = JUndefined, totalScore = JNum 35 \<rparr>"

definition demo_env :: store_env where
  "demo_env = \<lparr> serverTime = 5000, newId = ''c1'', rejects = (\<lambda>c. False) \<rparr>"

definition scores_no_total :: scores_obj where
  "scores_no_total = \<lparr> technical = JNum 8, story = JNum 7, creativity = JNum 9, chiangmai = JNum 6,
       overall = JNum 5, humanEffort = JUndefined, totalScore = JUndefined \<rparr>"

definition persisted_no_total :: scores_obj where
  "persisted_no_total = \<lparr> technical = JNum 8, story = JNum 7, creativity = JNum 9, chiangmai = JNum 6,
       overall = JUndefined, humanEffort = JNum 5, totalScore = JNum 0 \<rparr>"

definition scoring_doc :: "scores_obj \<Rightarrow> comment_doc" where
  "scoring_doc s = \<lparr> submissionId = Some ''S1'', adminId = Some ''a1'', adminName = Some ''Ann'',
       adminEmail = Some ''ann@example.org'', content = Some [], type = Some ''scoring'',
       scores = Some s, metadata = Some [], createdAt = Some 5000, updatedAt = None,
       isEdited = Some False, isDeleted = Some False, editHistory = None \<rparr>"

definition scores_35 :: scores_obj where
  "scores_35 = scores_no_total\<lparr> totalScore := JNum 35 \<rparr>"

definition one_comment :: collection where
  "one_comment = [(''c0'', scoring_doc persisted_no_total)]"

definition db_stray :: scores_obj where
  "db_stray = \<lparr> technical = JNum 8, story = JNum 7, creativity = JNum 9, chiangmai = JNum 6,
       overall = JNum 4, humanEffort = JNum 0, totalScore = JNum 34 \<rparr>"

definition first_call :: update_call where
  "first_call = \<lparr> u_env = demo_env, u_scores = scores_35, u_comments = ''  revised  '',
       u_editedBy = ''Bob'' \<rparr>"

definition doc_a :: comment_doc where
  "doc_a = \<lparr> submissionId = Some ''S1'', adminId = Some ''a1'', adminName = Some ''Ann'',
       adminEmail = Some ''ann@example.org'', content = Some ''first'', type = Some ''general'',
       scores = None, metadata = Some [], createdAt = Some 200, updatedAt = None,
       isEdited = Some False, isDeleted = Some False, editHistory = None \<rparr>"

text \<open>A document without the \<open>isDeleted\<close> key.\<close>

definition doc_b :: comment_doc where
  "doc_b = doc_a\<lparr> content := Some ''second'', createdAt := Some 100, isDeleted := None \<rparr>"

definition doc_c :: comment_doc where
  "doc_c = doc_a\<lparr> content := Some ''third'', createdAt := Some 300 \<rparr>"

definition demo_coll :: collection where
  "demo_coll = [(''A'', doc_a), (''B'', doc_b)]"

definition store_full :: query_responses where
  "store_full = \<lparr> filteredQuery = Some [(''A'', doc_a)], simpleQuery = Some [(''A'', doc_a)],
       unfilteredQuery = Some demo_coll \<rparr>"

definition store_unfiltered_only :: query_responses where
  "store_unfiltered_only = \<lparr> filteredQuery = None, simpleQuery = None,
       unfilteredQuery = Some demo_coll \<rparr>"

definition store_down :: query_responses where
  "store_down = \<lparr> filteredQuery = None, simpleQuery = None, unfilteredQuery = None \<rparr>"

definition two_docs :: collection where
  "two_docs = [(''A'', doc_a), (''C'', doc_c)]"

definition store_one :: query_responses where
  "store_one = \<lparr> filteredQuery = Some [(''C'', doc_c), (''A'', doc_a)], simpleQuery = Some two_docs,
       unfilteredQuery = Some two_docs \<rparr>"

definition store_two :: query_responses where
  "store_two = \<lparr> filteredQuery = None, simpleQuery = Some two_docs, unfilteredQuery = Some two_docs \<rparr>"

definition store_three :: query_responses where
  "store_three = \<lparr> filteredQuery = None, simpleQuery = None,
       unfilteredQuery = Some [(''C'', doc_c), (''A'', doc_a)] \<rparr>"

definition old_guests :: "guest_entry list" where
  "old_guests = [plain_entry ''Old Director'' ''Director'', plain_entry ''Old Producer'' ''Producer'',
                 plain_entry ''Old Actor'' ''Actor'']"

definition film0 :: film_doc where
  "film0 = \<lparr> director = Some ''Old Director'', producer = Some ''Old Producer'',
       mainActors = Some ''Old Actor'', posterUrl = None, trailerUrl = None, galleryUrls = None,
       otherFields = [(''titleEn'', MStr ''Film A'')], createdBy = Some ''u1'',
       createdStamp = Some 1000, updatedStamp = Some 1000 \<rparr>"

definition world0 :: film_world where
  "world0 = \<lparr> films = [(''f1'', film0)], guestsOf = [(''f1'', old_guests)], calls = [] \<rparr>"

definition env_ok :: film_env where
  "env_ok = \<lparr> f_serverTime = 2000, f_newId = ''f2'', fails = (\<lambda>c. None), upload = (\<lambda>folder f. Some f) \<rparr>"

definition env_down :: film_env where
  "env_down = env_ok\<lparr> fails := (\<lambda>c. Some (ThrownError ''The store is unavailable'')) \<rparr>"

definition env_delete_fails :: film_env where
  "env_delete_fails = guests_fail env_ok (Some (ThrownError ''Missing or insufficient permissions'')) None"

definition new_data :: film_data where
  "new_data = \<lparr> director = Some ''New Director'', producer = None, mainActors = None,
       posterUrl = None, trailerUrl = None, galleryUrls = None, otherFields = [],
       guests = Some [], posterFile = None, trailerFile = None, galleryFiles = None \<rparr>"

definition env_update_fails :: film_env where
  "env_update_fails = env_ok\<lparr> fails := (\<lambda>c. if c = UpdateFilm
       then Some (ThrownError ''The store is unavailable'') else None) \<rparr>"

definition data_with_poster :: film_data where
  "data_with_poster = new_data\<lparr> posterFile := Some ''poster.jpg'' \<rparr>"

definition updated_film :: film_doc where
  "updated_film = film0\<lparr> director := Some ''New Director'', updatedStamp := Some 2000 \<rparr>"

definition legacy_blank :: legacy_film where
  "legacy_blank = \<lparr> l_id = VStr ''f1'', l_titleEn = VUndefined, l_title = VUndefined,
       l_titleTh = VUndefined, l_synopsis = VUndefined, l_director = VUndefined,
       l_duration = VUndefined, l_releaseYear = VUndefined, l_languages = VUndefined,
       l_language = VUndefined, l_format = VUndefined, l_aspectRatio = VUndefined,
       l_soundFormat = VUndefined, l_genres = VUndefined, l_genre = VUndefined,
       l_countries = VUndefined, l_country = VUndefined, l_rating = VUndefined,
       l_posterUrl = VUndefined, l_trailerUrl = VUndefined, l_galleryUrls = VUndefined,
       l_mainActors = VUndefined, l_producer = VUndefined, l_screeningDate1 = VUndefined,
       l_timeEstimate = VUndefined, l_theatre = VUndefined, l_status = VUndefined,
       l_featured = VUndefined, l_createdAt = VUndefined, l_updatedAt = VUndefined,
       l_createdBy = VUndefined, l_updatedBy = VUndefined, l_tags = VUndefined,
       l_slug = VUndefined, l_metaDescription = VUndefined \<rparr>"

definition legacy_film_a :: legacy_film where
  "legacy_film_a = legacy_blank\<lparr> l_titleEn := VStr ''Film A'', l_director := VStr [],
       l_mainActors := VStr ''X, Y'' \<rparr>"

definition legacy_film_b :: legacy_film where
  "legacy_film_b = legacy_film_a\<lparr> l_director := VStr ''Dee'', l_producer := VStr ''Pat'' \<rparr>"

text \<open>The film \<open>legacy_film_a\<close> with its actors stored as an array.\<close>

definition legacy_array_actors :: legacy_film where
  "legacy_array_actors = legacy_film_a\<lparr> l_mainActors := VArr [VStr ''X'', VStr ''Y''] \<rparr>"

definition legacy_empty_arrays :: legacy_film where
  "legacy_empty_arrays = legacy_blank\<lparr> l_titleEn := VStr ''Film B'', l_countries := VArr [],
       l_country := VStr ''Thailand'', l_languages := VArr [], l_language := VStr ''Thai'',
       l_genres := VArr [], l_genre := VStr ''Drama'' \<rparr>"

section \<open>The field-mapping layer\<close>

lemma js_or_number: "is_number v \<Longrightarrow> js_or v (JNum 0) = v"
  by (cases v) (auto simp: js_or_def)

lemma js_or_absent: "js_or (js_or v JUndefined) w = js_or v w"
  by (cases v) (auto simp: js_or_def)

text \<open>
  C2. For every well-formed application score record \<open>x\<close> (its six numeric fields are
  present numbers), mapping to the persisted shape and back gives \<open>x\<close> again:
  \<open>mapDatabaseScoresToApp (mapAppScoresToDatabase x) = x\<close>. The renaming between
  \<open>overall\<close> and \<open>humanEffort\<close> loses no field.
\<close>

theorem score_mapping_round_trip:
  assumes "wf_app_scores x"
  shows "mapDatabaseScoresToApp (Some (mapAppScoresToDatabase x)) = Some x"
proof -
  from assms have n: "is_number (technical x)" "is_number (story x)" "is_number (creativity x)"
      "is_number (chiangmai x)" "is_number (overall x)" "is_number (totalScore x)"
    and h: "humanEffort x = JUndefined"
    by (simp_all add: wf_app_scores_def)
  have "mapDatabaseScoresToApp (Some (mapAppScoresToDatabase x)) =
        Some \<lparr> technical = technical x, story = story x, creativity = creativity x,
               chiangmai = chiangmai x, overall = overall x, humanEffort = JUndefined,
               totalScore = totalScore x \<rparr>"
    using n by (simp add: mapDatabaseScoresToApp_def mapAppScoresToDatabase_def
        js_or_absent js_or_number)
  also have "\<dots> = Some x" using h by simp
  finally show ?thesis .
qed

theorem score_mapping_round_trip_witness:
  "wf_app_scores app0 \<and> mapDatabaseScoresToApp (Some (mapAppScoresToDatabase app0)) = Some app0"
proof -
  have h: "wf_app_scores app0" by (simp add: wf_app_scores_def app0_def)
  from score_mapping_round_trip [OF h] h show ?thesis by simp
qed

text \<open>
  C10. For every persisted score object \<open>d\<close>, the \<open>overall\<close> that
  \<open>mapDatabaseScoresToApp\<close> produces is \<open>humanEffort d\<close> when that is present and a
  non-zero number, otherwise \<open>overall d\<close> when that is present and a non-zero number,
  otherwise 0. So a record stored with the key \<open>overall\<close> is read back with its score,
  and a stored \<open>humanEffort\<close> of 0 gives way to a non-zero \<open>overall\<close>.
\<close>

theorem overall_read_order:
  "mapDatabaseScoresToApp (Some d) = Some a \<Longrightarrow>
     overall a = (if present_nonzero (humanEffort d) then humanEffort d
                  else if present_nonzero (overall d) then overall d else JNum 0)"
  unfolding mapDatabaseScoresToApp_def
  by (cases "humanEffort d"; cases "overall d") (auto simp: js_or_def)

theorem overall_read_order_witness:
  "mapDatabaseScoresToApp (Some db_stray) = Some (the (mapDatabaseScoresToApp (Some db_stray))) \<and>
   humanEffort db_stray = JNum 0 \<and> overall db_stray = JNum 4 \<and>
   overall (the (mapDatabaseScoresToApp (Some db_stray))) = JNum 4"
proof -
  have h: "mapDatabaseScoresToApp (Some db_stray) = Some (the (mapDatabaseScoresToApp (Some db_stray)))"
    by (simp add: mapDatabaseScoresToApp_def)
  from overall_read_order [OF h] h show ?thesis by (simp add: db_stray_def)
qed

section \<open>The comment write path\<close>

lemma map_of_update_at:
  "map_of (map (\<lambda>(i, d). if i = k then (i, f d) else (i, d)) xs) k = map_option f (map_of xs k)"
  by (induction xs) auto

lemma consistent_kept:
  "app_total_consistent scs \<Longrightarrow> total_consistent (mapAppScoresToDatabase scs)"
  by (auto simp: mapAppScoresToDatabase_def js_or_def split: jsnum.splits)

text \<open>
  C1 as the specification states it fails: the record \<open>{technical: 8, story: 7,
  creativity: 9, chiangmai: 6, overall: 5}\<close> without a \<open>totalScore\<close> is persisted with
  \<open>totalScore = 0\<close>, not 35, and the persisted record breaks the sum invariant.
\<close>

theorem persisted_total_counterexample:
  "addScoringComment demo_env [] ''S1'' ''a1'' ''Ann'' ''ann@example.org'' scores_no_total None None =
     Inr (''c1'', [(''c1'', scoring_doc persisted_no_total)]) \<and>
   totalScore persisted_no_total = JNum 0 \<and> \<not> total_consistent persisted_no_total"
  by (simp add: addScoringComment_def addDoc_def demo_env_def scores_no_total_def
      persisted_no_total_def scoring_doc_def mapAppScoresToDatabase_def js_or_def str_or_def)

text \<open>
  C1 (amended). Every \<open>addScoringComment\<close> that succeeds persists
  \<open>mapAppScoresToDatabase scores\<close>, and \<open>updateScoringComment\<close> hands
  \<open>mapAppScoresToDatabase scores\<close> to the store as the scores of the document, whatever
  document it read. The \<open>totalScore\<close> of that record is the \<open>totalScore\<close> the caller
  supplied, or 0 when that is missing or falsy; the write path does not recompute it. When
  the caller's record satisfies
  \<open>totalScore = technical + story + creativity + chiangmai + overall\<close>, the record
  satisfies \<open>totalScore = technical + story + creativity + chiangmai + humanEffort\<close>.
\<close>

theorem scoring_write_keeps_caller_total:
  "(addScoringComment env coll sid aid an ae scs cont meta = Inr (cid, coll') \<longrightarrow>
      (\<exists>d. coll' = coll @ [(cid, d)] \<and> scores d = Some (mapAppScoresToDatabase scs))) \<and>
   p_scores (scoring_update env2 cur scs cmts editor) = mapAppScoresToDatabase scs \<and>
   totalScore (mapAppScoresToDatabase scs) = js_or (totalScore scs) (JNum 0) \<and>
   (app_total_consistent scs \<longrightarrow> total_consistent (mapAppScoresToDatabase scs))"
proof (intro conjI impI)
  assume "addScoringComment env coll sid aid an ae scs cont meta = Inr (cid, coll')"
  then show "\<exists>d. coll' = coll @ [(cid, d)] \<and> scores d = Some (mapAppScoresToDatabase scs)"
    by (auto simp: addScoringComment_def addDoc_def Let_def split: if_splits)
next
  show "p_scores (scoring_update env2 cur scs cmts editor) = mapAppScoresToDatabase scs"
    by (simp add: scoring_update_def)
next
  show "totalScore (mapAppScoresToDatabase scs) = js_or (totalScore scs) (JNum 0)"
    by (simp add: mapAppScoresToDatabase_def)
next
  assume "app_total_consistent scs"
  then show "total_consistent (mapAppScoresToDatabase scs)" by (rule consistent_kept)
qed

theorem scoring_write_keeps_caller_total_witness:
  "addScoringComment demo_env one_comment ''S1'' ''a1'' ''Ann'' ''ann@example.org'' scores_35 None None =
     Inr (''c1'', one_comment @ [(''c1'', scoring_doc (mapAppScoresToDatabase scores_35))]) \<and>
   p_scores (scoring_update demo_env (scoring_doc persisted_no_total) scores_35 [] ''Bob'') =
     mapAppScoresToDatabase scores_35 \<and>
   app_total_consistent scores_35 \<and>
   total_consistent (mapAppScoresToDatabase scores_35) \<and>
   totalScore (mapAppScoresToDatabase scores_35) = JNum 35"
proof -
  have a: "addScoringComment demo_env one_comment ''S1'' ''a1'' ''Ann'' ''ann@example.org'' scores_35 None None =
     Inr (''c1'', one_comment @ [(''c1'', scoring_doc (mapAppScoresToDatabase scores_35))])"
    by (simp add: addScoringComment_def addDoc_def demo_env_def scoring_doc_def str_or_def)
  have c: "app_total_consistent scores_35"
    by (simp add: scores_35_def scores_no_total_def)
  from scoring_write_keeps_caller_total [where env = demo_env and coll = one_comment
      and scs = scores_35 and ?env2.0 = demo_env and cur = "scoring_doc persisted_no_total"
      and cmts = "[]" and editor = "''Bob''"]
    a c
  show ?thesis
    by (simp add: scores_35_def scores_no_total_def js_or_def)
qed

text \<open>
  The new entry of the history carries the sentinel inside the array, so the client
  refuses the data of every update: \<open>updateScoringComment\<close> throws whatever the store
  holds and whatever it is given, and no run of calls gets past its first call.
\<close>

lemma sentinel_in_scoring_update:
  "sentinel_in_array (scoring_update env cur scs cmts editor)"
  by (simp add: sentinel_in_array_def scoring_update_def)

lemma updateScoringComment_throws:
  "updateScoringComment env coll sid cid scs cmts editor =
     Inl (Error ''Failed to update scoring comment'')"
  by (simp add: updateScoringComment_def updateDoc_def sentinel_in_scoring_update
      split: option.splits)

lemma run_updates_stops:
  "run_updates coll sid cid (c # cs) = Inl (Error ''Failed to update scoring comment'')"
  by (simp add: updateScoringComment_throws)

text \<open>
  C6. After \<open>N\<close> successive successful \<open>updateScoringComment\<close> calls the stored history
  is to have \<open>N\<close> entries, each with the content and scores from before its call. The
  code builds that entry, but no call succeeds: on a store that accepts every call and
  holds the comment \<open>c0\<close> without history, the first update reads the document, builds
  the history with the one new entry, and throws \<open>Failed to update scoring comment\<close>.
\<close>

theorem edit_history_update_rejected:
  "getDoc demo_env one_comment ''c0'' = Some (Some (scoring_doc persisted_no_total)) \<and>
   history_of (scoring_doc persisted_no_total) = [] \<and>
   p_editHistory (scoring_update demo_env (scoring_doc persisted_no_total) scores_35
                    ''  revised  '' ''Bob'') =
     [\<lparr> editedAt = ServerTimestamp, previousContent = Some [],
        previousScores = Some persisted_no_total, editedBy = ''Bob'' \<rparr>] \<and>
   updateScoringComment demo_env one_comment ''S1'' ''c0'' scores_35 ''  revised  '' ''Bob'' =
     Inl (Error ''Failed to update scoring comment'') \<and>
   run_updates one_comment ''S1'' ''c0'' [first_call] =
     Inl (Error ''Failed to update scoring comment'')"
  by (simp add: getDoc_def demo_env_def one_comment_def history_of_def scoring_doc_def
      scoring_update_def updateScoringComment_throws)

section \<open>The comment read path\<close>

lemma map_filter_process:
  "List.map_filter (process_doc strat sid now) snap = map (to_comment sid now) (filter (keeps strat) snap)"
proof -
  have "process_doc strat sid now = (\<lambda>p. if keeps strat p then Some (to_comment sid now p) else None)"
    by (rule ext) (simp add: process_doc_def keeps_def)
  then show ?thesis by (simp add: map_filter_map_filter)
qed

lemma getComments_tier:
  assumes "sid \<noteq> []" and "fetch_snapshot r = Some (snap, strat)"
  shows "getComments r now sid =
     Inr (if strat = Filtered then map (to_comment sid now) (filter (keeps strat) snap)
          else sort_desc (map (to_comment sid now) (filter (keeps strat) snap)))"
  using assms
  by (cases strat) (simp_all add: getComments_def map_filter_process sort_desc_def)

lemma time_of_comment:
  "createdAt (snd p) \<noteq> None \<Longrightarrow> c_createdAt (to_comment sid now p) = doc_time p"
  by (cases p) (auto simp: to_comment_def doc_time_def)

lemma times_of_comments:
  assumes "\<forall>p \<in> set xs. createdAt (snd p) \<noteq> None"
  shows "map (\<lambda>c. - c_createdAt c) (map (to_comment sid now) xs) = map (\<lambda>p. - doc_time p) xs"
  using assms by (induction xs) (auto simp: time_of_comment)

lemma sorted_key_unique:
  assumes "sorted (map k xs)" "sorted (map k ys)" "distinct (map k xs)" "mset xs = mset ys"
  shows "xs = ys"
proof -
  have m: "mset (map k xs) = mset (map k ys)" using assms(4) by (metis mset_map)
  have dy: "distinct (map k ys)" using assms(3) mset_eq_imp_distinct_iff [OF m] by simp
  have s: "set xs = set ys" using assms(4) by (rule mset_eq_setD)
  have "inj_on k (set xs \<union> set ys)" using assms(3) s by (simp add: distinct_map)
  then show ?thesis
    using assms(1,3) assms(2) dy s by (rule map_sorted_distinct_set_unique)
qed

lemma visible_mset:
  assumes "has_flags coll"
  shows "filter_mset (keeps strat) (filter_mset not_deleted (mset coll)) = filter_mset visible (mset coll)"
    and "filter_mset (keeps Unfiltered) (mset coll) = filter_mset visible (mset coll)"
proof -
  have "filter_mset (keeps strat) (filter_mset not_deleted (mset coll)) =
        filter_mset (\<lambda>p. not_deleted p \<and> keeps strat p) (mset coll)"
    by (simp add: filter_filter_mset)
  also have "\<dots> = filter_mset visible (mset coll)"
    by (rule filter_mset_cong) (auto simp: visible_def not_deleted_def keeps_def)
  finally show "filter_mset (keeps strat) (filter_mset not_deleted (mset coll)) = filter_mset visible (mset coll)" .
  have "isDeleted (snd p) = Some True \<or> isDeleted (snd p) = Some False" if "p \<in> set coll" for p
  proof -
    from that assms have "isDeleted (snd p) \<noteq> None" by (auto simp: has_flags_def list_all_iff)
    then obtain b where "isDeleted (snd p) = Some b" by auto
    then show ?thesis by (cases b) auto
  qed
  then show "filter_mset (keeps Unfiltered) (mset coll) = filter_mset visible (mset coll)"
    by (intro filter_mset_cong) (fastforce simp: visible_def not_deleted_def keeps_def)+
qed

lemma filter_of_answer:
  assumes "has_flags coll"
  shows "mset s = mset (filter not_deleted coll) \<Longrightarrow>
           mset (filter (keeps strat) s) = mset (filter visible coll)"
    and "mset s = mset coll \<Longrightarrow> mset (filter (keeps Unfiltered) s) = mset (filter visible coll)"
proof -
  assume a: "mset s = mset (filter not_deleted coll)"
  have "mset (filter (keeps strat) s) = filter_mset (keeps strat) (mset s)" by (simp only: mset_filter)
  also have "\<dots> = filter_mset (keeps strat) (filter_mset not_deleted (mset coll))"
    by (simp only: a mset_filter)
  also have "\<dots> = filter_mset visible (mset coll)" by (rule visible_mset(1) [OF assms])
  finally show "mset (filter (keeps strat) s) = mset (filter visible coll)" by (simp only: mset_filter)
next
  assume a: "mset s = mset coll"
  have "mset (filter (keeps Unfiltered) s) = filter_mset (keeps Unfiltered) (mset s)"
    by (simp only: mset_filter)
  also have "\<dots> = filter_mset visible (mset coll)"
    by (simp only: a visible_mset(2) [OF assms])
  finally show "mset (filter (keeps Unfiltered) s) = mset (filter visible coll)"
    by (simp only: mset_filter)
qed

text \<open>
  C3 as the specification states it fails. The collection holds a comment \<open>A\<close> and a
  comment \<open>B\<close> that has no \<open>isDeleted\<close> key. The two filtered queries ask for
  \<open>isDeleted == false\<close> and do not return \<open>B\<close>; the unfiltered strategy only drops
  \<open>isDeleted === true\<close> and returns it. The caller sees which strategy ran.
\<close>

theorem fallback_tier_observable_counterexample:
  "answers demo_coll store_full \<and> answers demo_coll store_unfiltered_only \<and>
   getComments store_full 0 ''S1'' = Inr [to_comment ''S1'' 0 (''A'', doc_a)] \<and>
   getComments store_unfiltered_only 0 ''S1'' =
     Inr [to_comment ''S1'' 0 (''A'', doc_a), to_comment ''S1'' 0 (''B'', doc_b)] \<and>
   getComments store_full 0 ''S1'' \<noteq> getComments store_unfiltered_only 0 ''S1''"
  by (simp add: answers_def demo_coll_def store_full_def store_unfiltered_only_def not_deleted_def
      newest_first_def doc_a_def doc_b_def getComments_def fetch_snapshot_def List.map_filter_def
      process_doc_def required_present_def sort_desc_def to_comment_def)

text \<open>
  C3 (amended). Take a collection in which every document has a boolean \<open>isDeleted\<close>
  and a \<open>createdAt\<close> time, a non-empty submission identifier, and three stores holding
  that collection: one accepts the filtered and ordered query, one rejects it and accepts
  the filtered query, one accepts only the unfiltered fetch. Then \<open>getComments\<close> returns
  a list in all three cases; each list holds exactly the comments of the documents that are
  not deleted and have \<open>adminId\<close>, \<open>adminName\<close> and \<open>type\<close>; each list is sorted with the
  newest \<open>createdAt\<close> first; and when no two of these documents share a \<open>createdAt\<close>,
  the three lists are equal.
\<close>

theorem fallback_tiers_agree:
  assumes flags: "has_flags coll" and sid: "sid \<noteq> []"
    and r1: "answers coll r1" "filteredQuery r1 = Some s1"
    and r2: "answers coll r2" "filteredQuery r2 = None" "simpleQuery r2 = Some s2"
    and r3: "answers coll r3" "filteredQuery r3 = None" "simpleQuery r3 = None"
            "unfilteredQuery r3 = Some s3"
  shows "\<exists>c1 c2 c3.
     getComments r1 now sid = Inr c1 \<and> getComments r2 now sid = Inr c2 \<and>
     getComments r3 now sid = Inr c3 \<and>
     mset c1 = mset (map (to_comment sid now) (filter visible coll)) \<and>
     mset c2 = mset c1 \<and> mset c3 = mset c1 \<and>
     newest_first_comments c1 \<and> newest_first_comments c2 \<and> newest_first_comments c3 \<and>
     (distinct (map doc_time (filter visible coll)) \<longrightarrow> c1 = c2 \<and> c2 = c3)"
proof -
  let ?V = "to_comment sid now"
  let ?k = "\<lambda>c. - c_createdAt c"
  let ?L = "map ?V (filter visible coll)"
  define c1 where "c1 = map ?V (filter (keeps Filtered) s1)"
  define c2 where "c2 = sort_desc (map ?V (filter (keeps Simple) s2))"
  define c3 where "c3 = sort_desc (map ?V (filter (keeps Unfiltered) s3))"
  have m1: "mset s1 = mset (filter not_deleted coll)" and n1: "newest_first s1"
    using r1 by (simp_all add: answers_def)
  have m2: "mset s2 = mset (filter not_deleted coll)"
    using r2 by (simp add: answers_def)
  have m3: "mset s3 = mset coll"
    using r3 by (simp add: answers_def)
  have g1: "getComments r1 now sid = Inr c1"
    using getComments_tier [OF sid, of r1 s1 Filtered now] r1(2)
    by (simp add: fetch_snapshot_def c1_def)
  have g2: "getComments r2 now sid = Inr c2"
    using getComments_tier [OF sid, of r2 s2 Simple now] r2(2,3)
    by (simp add: fetch_snapshot_def c2_def)
  have g3: "getComments r3 now sid = Inr c3"
    using getComments_tier [OF sid, of r3 s3 Unfiltered now] r3(2,3,4)
    by (simp add: fetch_snapshot_def c3_def)
  have f1: "mset (filter (keeps Filtered) s1) = mset (filter visible coll)"
    using m1 by (rule filter_of_answer(1) [OF flags])
  have f2: "mset (filter (keeps Simple) s2) = mset (filter visible coll)"
    using m2 by (rule filter_of_answer(1) [OF flags])
  have f3: "mset (filter (keeps Unfiltered) s3) = mset (filter visible coll)"
    using m3 by (rule filter_of_answer(2) [OF flags])
  have e1: "mset c1 = mset ?L" unfolding c1_def using f1 by (metis mset_map)
  have e2: "mset c2 = mset ?L" unfolding c2_def sort_desc_def using f2 by (metis mset_map mset_sort)
  have e3: "mset c3 = mset ?L" unfolding c3_def sort_desc_def using f3 by (metis mset_map mset_sort)
  have timed: "\<forall>p \<in> set s1. createdAt (snd p) \<noteq> None"
  proof
    fix p assume "p \<in> set s1"
    then have "p \<in> set (filter not_deleted coll)" using m1 by (metis mset_eq_setD)
    then show "createdAt (snd p) \<noteq> None"
      using flags by (auto simp: has_flags_def list_all_iff)
  qed
  have s1: "newest_first_comments c1"
  proof -
    have "map ?k c1 = map (\<lambda>p. - doc_time p) (filter (keeps Filtered) s1)"
      unfolding c1_def using timed by (intro times_of_comments) auto
    moreover have "sorted (map (\<lambda>p. - doc_time p) (filter (keeps Filtered) s1))"
      using n1 unfolding newest_first_def by (rule sorted_filter)
    ultimately show ?thesis by (simp add: newest_first_comments_def)
  qed
  have s2: "newest_first_comments c2"
    by (simp add: newest_first_comments_def c2_def sort_desc_def)
  have s3: "newest_first_comments c3"
    by (simp add: newest_first_comments_def c3_def sort_desc_def)
  have eq: "c1 = c2 \<and> c2 = c3" if d: "distinct (map doc_time (filter visible coll))"
  proof -
    have "\<forall>p \<in> set (filter visible coll). createdAt (snd p) \<noteq> None"
      using flags by (auto simp: has_flags_def list_all_iff)
    then have "map ?k ?L = map (\<lambda>p. - doc_time p) (filter visible coll)"
      by (rule times_of_comments)
    also have "\<dots> = map uminus (map doc_time (filter visible coll))" by simp
    finally have "distinct (map ?k ?L)"
      using d by (simp add: distinct_map inj_on_def del: map_map)
    moreover have "mset (map ?k c1) = mset (map ?k ?L)" using e1 by (metis mset_map)
    ultimately have d1: "distinct (map ?k c1)" using mset_eq_imp_distinct_iff by blast
    have d2: "distinct (map ?k c2)"
      using d1 mset_eq_imp_distinct_iff [of "map ?k c1" "map ?k c2"] e1 e2 by (metis mset_map)
    have "c1 = c2"
      using s1 s2 d1 e1 e2 unfolding newest_first_comments_def
      by (intro sorted_key_unique [of ?k]) auto
    moreover have "c2 = c3"
      using s2 s3 d2 e2 e3 unfolding newest_first_comments_def
      by (intro sorted_key_unique [of ?k]) auto
    ultimately show ?thesis by simp
  qed
  show ?thesis
    using g1 g2 g3 e1 e2 e3 s1 s2 s3 eq by auto
qed

theorem fallback_tiers_agree_witness:
  "has_flags two_docs \<and> answers two_docs store_one \<and> answers two_docs store_two \<and>
   answers two_docs store_three \<and> distinct (map doc_time (filter visible two_docs)) \<and>
   getComments store_one 0 ''S1'' = getComments store_two 0 ''S1'' \<and>
   getComments store_two 0 ''S1'' = getComments store_three 0 ''S1''"
proof -
  have f: "has_flags two_docs"
    by (auto simp: has_flags_def two_docs_def doc_a_def doc_c_def)
  have a1: "answers two_docs store_one"
    by (simp add: answers_def store_one_def two_docs_def not_deleted_def newest_first_def
        doc_time_def doc_a_def doc_c_def)
  have a2: "answers two_docs store_two"
    by (simp add: answers_def store_two_def two_docs_def not_deleted_def doc_a_def doc_c_def)
  have a3: "answers two_docs store_three"
    by (simp add: answers_def store_three_def two_docs_def)
  have d: "distinct (map doc_time (filter visible two_docs))"
    by (simp add: two_docs_def visible_def not_deleted_def required_present_def doc_time_def
        doc_a_def doc_c_def)
  have s: "''S1'' \<noteq> []" by simp
  from fallback_tiers_agree [OF f s a1 _ a2 _ _ a3, of "[(''C'', doc_c), (''A'', doc_a)]"
      two_docs "[(''C'', doc_c), (''A'', doc_a)]" 0] d
  have "getComments store_one 0 ''S1'' = getComments store_two 0 ''S1'' \<and>
        getComments store_two 0 ''S1'' = getComments store_three 0 ''S1''"
    by (auto simp: store_one_def store_two_def store_three_def)
  with f a1 a2 a3 d show ?thesis by simp
qed

text \<open>
  The service with the fallback strategies keeps what C4 says: when all three queries are
  rejected it returns the empty list, for every submission identifier.
\<close>

lemma getComments_all_rejected: "getComments store_down now sid = Inr []"
  by (simp add: getComments_def fetch_snapshot_def store_down_def)

text \<open>
  C4. When all three queries are rejected, \<open>getComments\<close> is to return the empty list
  and not throw. The \<open>getComments\<close> of the second copy of the service does not: with the
  store rejecting every query it throws \<open>Failed to fetch comments\<close>.
\<close>

theorem getComments_single_throws:
  "getComments_single store_down 0 ''S1'' = Inl (Error ''Failed to fetch comments'')"
  by (simp add: getComments_single_def store_down_def)
section \<open>The film write path\<close>

lemma logged_fields [simp]:
  "films (logged c w) = films w" "guestsOf (logged c w) = guestsOf w"
  "calls (logged c w) = calls w @ [c]"
  by (simp_all add: logged_def)

lemma films_resync [simp]: "films (resync_guests env w filmId crew) = films w"
  by (simp add: resync_guests_def deleteAllGuests_def createMultipleGuests_def logged_def
      split: option.splits)

lemma films_create_guests [simp]: "films (create_guests env w filmId crew) = films w"
  by (simp add: create_guests_def createMultipleGuests_def logged_def split: option.splits)

lemma fst_read_back:
  "fst (read_back env w filmId missing fallback) =
     (case fails env GetFilm of
        Some t \<Rightarrow> failure t fallback
      | None \<Rightarrow>
          (case map_of (films w) filmId of
             None \<Rightarrow> \<lparr> success = False, rdata = None, rerror = Some missing \<rparr>
           | Some d \<Rightarrow> \<lparr> success = True, rdata = Some (filmId, d), rerror = None \<rparr>))"
  by (simp add: read_back_def getFilm_def split: option.splits)

lemma guests_fail_simps [simp]:
  "f_serverTime (guests_fail env x y) = f_serverTime env"
  "f_newId (guests_fail env x y) = f_newId env"
  "upload (guests_fail env x y) = upload env"
  "fails (guests_fail env x y) AddFilm = fails env AddFilm"
  "fails (guests_fail env x y) UpdateFilm = fails env UpdateFilm"
  "fails (guests_fail env x y) GetFilm = fails env GetFilm"
  "fails (guests_fail env x y) DeleteAllGuests = x"
  "fails (guests_fail env x y) CreateMultipleGuests = y"
  by (simp_all add: guests_fail_def)

lemma uploads_guests_fail [simp]:
  "uploadFeatureFilmFiles (guests_fail env x y) fd = uploadFeatureFilmFiles env fd"
  unfolding uploadFeatureFilmFiles_def guests_fail_simps by (rule refl)

lemma primary_guests_fail [simp]:
  "updateFilm (guests_fail env x y) w filmId u = updateFilm env w filmId u"
  "addFilm (guests_fail env x y) w d = addFilm env w d"
  "fileUploadData (guests_fail env x y) fd = fileUploadData env fd"
  unfolding updateFilm_def addFilm_def fileUploadData_def uploads_guests_fail guests_fail_simps
  by (rule refl)+

lemma fst_read_back_cong:
  assumes "fails env GetFilm = fails env' GetFilm" and "films w = films w'"
  shows "fst (read_back env w filmId missing fallback) = fst (read_back env' w' filmId missing fallback)"
  unfolding fst_read_back assms by (rule refl)

lemma fst_read_back_simps [simp]:
  "fst (read_back env (resync_guests env' w k crew) filmId missing fallback) =
     fst (read_back env w filmId missing fallback)"
  "fst (read_back env (create_guests env' w k crew) filmId missing fallback) =
     fst (read_back env w filmId missing fallback)"
  "fst (read_back env (logged c w) filmId missing fallback) =
     fst (read_back env w filmId missing fallback)"
  "fst (read_back (guests_fail env x y) w filmId missing fallback) =
     fst (read_back env w filmId missing fallback)"
  by (rule fst_read_back_cong; simp)+

lemma fst_update:
  "fst (updateFeatureFilm env w filmId fd) =
     (case updateFilm env w filmId (overlay (prepareFilmDataForFirestore fd) (fileUploadData env fd)) of
        Inl t \<Rightarrow> failure t ''Failed to update film in films collection''
      | Inr w0 \<Rightarrow> fst (read_back env w0 filmId ''Film not found in films collection after update''
                         ''Failed to update film in films collection''))"
  by (simp add: updateFeatureFilm_def Let_def split: sum.splits)

lemma update_result_any_guests:
  "fst (updateFeatureFilm (guests_fail env x y) w filmId fd) =
   fst (updateFeatureFilm (guests_fail env None None) w filmId fd)"
  by (simp add: fst_update split: sum.splits)

lemma fst_create:
  "fst (createFeatureFilm env w fd userId) =
     (case addFilm env w
             \<lparr> director = director fd, producer = producer fd, mainActors = mainActors fd,
               posterUrl = posterUrl fd, trailerUrl = trailerUrl fd, galleryUrls = galleryUrls fd,
               otherFields = otherFields fd, createdBy = Some userId,
               createdStamp = Some (f_serverTime env), updatedStamp = Some (f_serverTime env) \<rparr> of
        Inl t \<Rightarrow> failure t ''Failed to create film''
      | Inr (filmId, w0) \<Rightarrow>
          (if hasFiles fd \<and> has_keys (fileUploadData env fd)
           then (case updateFilm env (logged AddFilm w0) filmId (fileUploadData env fd) of
                   Inl t \<Rightarrow> failure t ''Failed to create film''
                 | Inr w2 \<Rightarrow> fst (read_back env w2 filmId ''Film created but could not retrieve data''
                                    ''Failed to create film''))
           else fst (read_back env w0 filmId ''Film created but could not retrieve data''
                       ''Failed to create film'')))"
  by (simp add: createFeatureFilm_def Let_def prepareFilmDataForFirestore_def
      split: sum.splits prod.splits)

lemma create_result_any_guests:
  "fst (createFeatureFilm (guests_fail env x y) w fd userId) =
   fst (createFeatureFilm (guests_fail env None None) w fd userId)"
  by (simp add: fst_create split: sum.splits prod.splits)

lemma guests_after_resync:
  assumes "fails env DeleteAllGuests = None"
    and "crew = [] \<or> fails env CreateMultipleGuests = None"
  shows "guests_in (resync_guests env w filmId crew) filmId = crew"
  using assms
  by (auto simp: resync_guests_def deleteAllGuests_def createMultipleGuests_def logged_def
      guests_in_def update_conv')

lemma guests_read_back [simp]:
  "guests_in (snd (read_back env w filmId missing fallback)) filmId = guests_in w filmId"
  by (simp add: read_back_def guests_in_def logged_def split: sum.splits option.splits)

lemma update_write_failure:
  assumes "updateFilm env w filmId (overlay (prepareFilmDataForFirestore fd) (fileUploadData env fd)) = Inl t"
  shows "updateFeatureFilm env w filmId fd =
     (failure t ''Failed to update film in films collection'', logged UpdateFilm w)"
  using assms by (simp add: updateFeatureFilm_def Let_def)

lemma create_file_write_failure:
  assumes "fails env AddFilm = None" and "hasFiles fd" and "has_keys (fileUploadData env fd)"
    and "fails env UpdateFilm = Some t"
  shows "\<not> success (fst (createFeatureFilm env w fd userId))"
    and "rerror (fst (createFeatureFilm env w fd userId)) \<noteq> None"
    and "guestsOf (snd (createFeatureFilm env w fd userId)) = guestsOf w"
    and "calls (snd (createFeatureFilm env w fd userId)) = calls w @ [AddFilm, UpdateFilm]"
  using assms
  by (simp_all add: createFeatureFilm_def addFilm_def updateFilm_def Let_def failure_def)

lemma create_primary_failure:
  assumes "fails env AddFilm = Some t"
  shows "createFeatureFilm env w fd userId = (failure t ''Failed to create film'', logged AddFilm w)"
  using assms by (simp add: createFeatureFilm_def addFilm_def Let_def)

lemma updateFilm_ok:
  assumes "fails env UpdateFilm = None" and "map_of (films w) filmId = Some d"
  shows "\<exists>w'. updateFilm env w filmId u = Inr w' \<and>
           map_of (films w') filmId = Some (merge_doc u (f_serverTime env) d) \<and>
           guestsOf w' = guestsOf w \<and> calls w' = calls w"
  using assms by (simp add: updateFilm_def map_of_update_at)

lemma update_success:
  assumes "fails env UpdateFilm = None" "fails env GetFilm = None" "map_of (films w) filmId \<noteq> None"
  shows "success (fst (updateFeatureFilm env w filmId fd))"
proof -
  from assms(3) obtain d where d: "map_of (films w) filmId = Some d" by auto
  let ?u = "overlay (prepareFilmDataForFirestore fd) (fileUploadData env fd)"
  from updateFilm_ok [OF assms(1) d, of ?u] obtain w' where
    "updateFilm env w filmId ?u = Inr w'"
    "map_of (films w') filmId = Some (merge_doc ?u (f_serverTime env) d)"
    by blast
  then show ?thesis
    using assms(2) by (simp add: fst_update fst_read_back)
qed

lemma create_success:
  assumes "fails env AddFilm = None" "fails env UpdateFilm = None" "fails env GetFilm = None"
  shows "success (fst (createFeatureFilm env w fd userId))"
proof -
  let ?d = "\<lparr> director = director fd, producer = producer fd, mainActors = mainActors fd,
               posterUrl = posterUrl fd, trailerUrl = trailerUrl fd, galleryUrls = galleryUrls fd,
               otherFields = otherFields fd, createdBy = Some userId,
               createdStamp = Some (f_serverTime env), updatedStamp = Some (f_serverTime env) \<rparr>"
  let ?w0 = "w\<lparr> films := films w @ [(f_newId env, ?d)] \<rparr>"
  have a: "addFilm env w ?d = Inr (f_newId env, ?w0)"
    using assms(1) by (simp add: addFilm_def)
  have "map_of (films ?w0) (f_newId env) \<noteq> None"
    by (simp add: map_of_eq_None_iff)
  then obtain d where d: "map_of (films ?w0) (f_newId env) = Some d" by blast
  then have d': "map_of (films (logged AddFilm ?w0)) (f_newId env) = Some d" by simp
  from updateFilm_ok [OF assms(2) d', of "fileUploadData env fd"] obtain w' where
    "updateFilm env (logged AddFilm ?w0) (f_newId env) (fileUploadData env fd) = Inr w'"
    "map_of (films w') (f_newId env) = Some (merge_doc (fileUploadData env fd) (f_serverTime env) d)"
    by blast
  with a d show ?thesis
    using assms(3) by (simp add: fst_create fst_read_back del: logged_fields)
qed

text \<open>
  C5 as the specification states it fails. The film \<open>f1\<close> has three guests; the update
  derives one entry from the new director. \<open>deleteAllGuests\<close> throws, the throw is caught,
  the call returns \<open>success: true\<close>, and the three old guests are still there.
\<close>

theorem stale_guests_counterexample:
  "updateFeatureFilm env_delete_fails world0 ''f1'' new_data =
     (\<lparr> success = True, rdata = Some (''f1'', updated_film), rerror = None \<rparr>,
      \<lparr> films = [(''f1'', updated_film)], guestsOf = [(''f1'', old_guests)],
        calls = [UpdateFilm, DeleteAllGuests, GetFilm] \<rparr>) \<and>
   extractCrewMembersFromFilmData new_data = [plain_entry ''New Director'' ''Director''] \<and>
   guests_in (snd (updateFeatureFilm env_delete_fails world0 ''f1'' new_data)) ''f1'' = old_guests \<and>
   old_guests \<noteq> extractCrewMembersFromFilmData new_data"
  by (simp add: updateFeatureFilm_def env_delete_fails_def guests_fail_def env_ok_def world0_def
      new_data_def updated_film_def film0_def old_guests_def plain_entry_def
      extractCrewMembersFromFilmData_def has_text_def trimmed_or_empty_def trim_def is_space_def space2_def space3_def
      prepareFilmDataForFirestore_def fileUploadData_def hasFiles_def overlay_def no_fields_def
      pick_def updateFilm_def merge_doc_def logged_def resync_guests_def deleteAllGuests_def
      read_back_def getFilm_def guests_in_def)

text \<open>
  C5 (amended). After every \<open>updateFeatureFilm\<close> call that returns success and in which
  the guest synchronisation did not fail (\<open>deleteAllGuests\<close> did not throw, and
  \<open>createMultipleGuests\<close> did not throw when the derived list is non-empty), the guest
  subcollection of the film is exactly the crew list derived from the input of the call,
  with no earlier entry left; an input that derives the empty list leaves it empty.
\<close>

theorem update_resyncs_guests:
  assumes "success (fst (updateFeatureFilm env w filmId fd))"
    and "fails env DeleteAllGuests = None"
    and "extractCrewMembersFromFilmData fd = [] \<or> fails env CreateMultipleGuests = None"
  shows "guests_in (snd (updateFeatureFilm env w filmId fd)) filmId = extractCrewMembersFromFilmData fd"
proof (cases "updateFilm env w filmId
      (overlay (prepareFilmDataForFirestore fd) (fileUploadData env fd))")
  case (Inl t)
  with assms(1) show ?thesis
    by (simp add: updateFeatureFilm_def Let_def failure_def)
next
  case (Inr w0)
  then show ?thesis
    using guests_after_resync [OF assms(2,3)]
    by (simp add: updateFeatureFilm_def Let_def)
qed

theorem update_resyncs_guests_witness:
  "success (fst (updateFeatureFilm env_ok world0 ''f1'' new_data)) \<and>
   fails env_ok DeleteAllGuests = None \<and> fails env_ok CreateMultipleGuests = None \<and>
   guests_in (snd (updateFeatureFilm env_ok world0 ''f1'' new_data)) ''f1'' =
     [plain_entry ''New Director'' ''Director'']"
proof -
  have s: "success (fst (updateFeatureFilm env_ok world0 ''f1'' new_data))"
    by (rule update_success) (simp_all add: env_ok_def world0_def)
  have d: "fails env_ok DeleteAllGuests = None" and c: "fails env_ok CreateMultipleGuests = None"
    by (simp_all add: env_ok_def)
  have e: "extractCrewMembersFromFilmData new_data = [plain_entry ''New Director'' ''Director'']"
    by (simp add: new_data_def extractCrewMembersFromFilmData_def has_text_def trimmed_or_empty_def
        trim_def is_space_def space2_def space3_def)
  from update_resyncs_guests [OF s d disjI2 [OF c]] s d c e show ?thesis by simp
qed

text \<open>
  C9. Whatever the two guest calls do (\<open>x\<close> for \<open>deleteAllGuests\<close>, \<open>y\<close> for
  \<open>createMultipleGuests\<close>: a throw or none), \<open>createFeatureFilm\<close> and \<open>updateFeatureFilm\<close>
  return the result they return when no guest call throws. With the writes of the primary
  document and the read at the end accepted, that result is \<open>success: true\<close>. When a
  write of the primary document itself throws (the \<open>addDoc\<close> of a create, its later
  update with the file addresses, or the \<open>updateDoc\<close> of an update), the call returns
  \<open>success: false\<close> with an error text, the guest subcollections are as before, and the
  only store calls made are the writes of the primary document: no guest call is attempted.
\<close>

theorem guest_sync_failure_swallowed:
  "fst (createFeatureFilm (guests_fail env x y) w fd userId) =
     fst (createFeatureFilm (guests_fail env None None) w fd userId) \<and>
   fst (updateFeatureFilm (guests_fail env x y) w filmId fd) =
     fst (updateFeatureFilm (guests_fail env None None) w filmId fd) \<and>
   (fails env AddFilm = None \<and> fails env UpdateFilm = None \<and> fails env GetFilm = None \<longrightarrow>
      success (fst (createFeatureFilm (guests_fail env x y) w fd userId))) \<and>
   (fails env UpdateFilm = None \<and> fails env GetFilm = None \<and> map_of (films w) filmId \<noteq> None \<longrightarrow>
      success (fst (updateFeatureFilm (guests_fail env x y) w filmId fd))) \<and>
   (fails env2 AddFilm = Some t \<longrightarrow>
      \<not> success (fst (createFeatureFilm env2 w fd userId)) \<and>
      rerror (fst (createFeatureFilm env2 w fd userId)) \<noteq> None \<and>
      guestsOf (snd (createFeatureFilm env2 w fd userId)) = guestsOf w \<and>
      calls (snd (createFeatureFilm env2 w fd userId)) = calls w @ [AddFilm]) \<and>
   (fails env3 AddFilm = None \<and> hasFiles fd3 \<and> has_keys (fileUploadData env3 fd3) \<and>
    fails env3 UpdateFilm = Some t \<longrightarrow>
      \<not> success (fst (createFeatureFilm env3 w fd3 userId)) \<and>
      rerror (fst (createFeatureFilm env3 w fd3 userId)) \<noteq> None \<and>
      guestsOf (snd (createFeatureFilm env3 w fd3 userId)) = guestsOf w \<and>
      calls (snd (createFeatureFilm env3 w fd3 userId)) = calls w @ [AddFilm, UpdateFilm]) \<and>
   (updateFilm env2 w filmId (overlay (prepareFilmDataForFirestore fd) (fileUploadData env2 fd)) = Inl t \<longrightarrow>
      \<not> success (fst (updateFeatureFilm env2 w filmId fd)) \<and>
      rerror (fst (updateFeatureFilm env2 w filmId fd)) \<noteq> None \<and>
      guestsOf (snd (updateFeatureFilm env2 w filmId fd)) = guestsOf w \<and>
      calls (snd (updateFeatureFilm env2 w filmId fd)) = calls w @ [UpdateFilm])"
proof (intro conjI impI)
  show "fst (createFeatureFilm (guests_fail env x y) w fd userId) =
     fst (createFeatureFilm (guests_fail env None None) w fd userId)"
    by (rule create_result_any_guests)
  show "fst (updateFeatureFilm (guests_fail env x y) w filmId fd) =
     fst (updateFeatureFilm (guests_fail env None None) w filmId fd)"
    by (rule update_result_any_guests)
next
  assume "fails env AddFilm = None \<and> fails env UpdateFilm = None \<and> fails env GetFilm = None"
  then show "success (fst (createFeatureFilm (guests_fail env x y) w fd userId))"
    by (intro create_success) simp_all
next
  assume "fails env UpdateFilm = None \<and> fails env GetFilm = None \<and> map_of (films w) filmId \<noteq> None"
  then show "success (fst (updateFeatureFilm (guests_fail env x y) w filmId fd))"
    by (intro update_success) simp_all
next
  assume a: "fails env2 AddFilm = Some t"
  show "\<not> success (fst (createFeatureFilm env2 w fd userId))"
    "rerror (fst (createFeatureFilm env2 w fd userId)) \<noteq> None"
    "guestsOf (snd (createFeatureFilm env2 w fd userId)) = guestsOf w"
    "calls (snd (createFeatureFilm env2 w fd userId)) = calls w @ [AddFilm]"
    by (simp_all add: create_primary_failure [OF a] failure_def)
next
  assume a: "fails env3 AddFilm = None \<and> hasFiles fd3 \<and> has_keys (fileUploadData env3 fd3) \<and>
    fails env3 UpdateFilm = Some t"
  then have b: "fails env3 AddFilm = None" "hasFiles fd3" "has_keys (fileUploadData env3 fd3)"
    "fails env3 UpdateFilm = Some t"
    by simp_all
  show "\<not> success (fst (createFeatureFilm env3 w fd3 userId))"
    "rerror (fst (createFeatureFilm env3 w fd3 userId)) \<noteq> None"
    "guestsOf (snd (createFeatureFilm env3 w fd3 userId)) = guestsOf w"
    "calls (snd (createFeatureFilm env3 w fd3 userId)) = calls w @ [AddFilm, UpdateFilm]"
    by (rule create_file_write_failure [OF b])+
next
  assume a: "updateFilm env2 w filmId (overlay (prepareFilmDataForFirestore fd) (fileUploadData env2 fd)) = Inl t"
  show "\<not> success (fst (updateFeatureFilm env2 w filmId fd))"
    "rerror (fst (updateFeatureFilm env2 w filmId fd)) \<noteq> None"
    "guestsOf (snd (updateFeatureFilm env2 w filmId fd)) = guestsOf w"
    "calls (snd (updateFeatureFilm env2 w filmId fd)) = calls w @ [UpdateFilm]"
    by (simp_all add: update_write_failure [OF a] failure_def)
qed

theorem guest_sync_failure_swallowed_witness:
  "fails env_ok AddFilm = None \<and> fails env_ok UpdateFilm = None \<and> fails env_ok GetFilm = None \<and>
   map_of (films world0) ''f1'' \<noteq> None \<and>
   fails env_down AddFilm = Some (ThrownError ''The store is unavailable'') \<and>
   fails env_update_fails AddFilm = None \<and> hasFiles data_with_poster \<and>
   has_keys (fileUploadData env_update_fails data_with_poster) \<and>
   fails env_update_fails UpdateFilm = Some (ThrownError ''The store is unavailable'') \<and>
   updateFilm env_down world0 ''f1''
     (overlay (prepareFilmDataForFirestore new_data) (fileUploadData env_down new_data)) =
     Inl (ThrownError ''The store is unavailable'') \<and>
   success (fst (createFeatureFilm (guests_fail env_ok None (Some ThrownOther)) world0 new_data ''u1'')) \<and>
   success (fst (updateFeatureFilm (guests_fail env_ok (Some ThrownOther) None) world0 ''f1'' new_data)) \<and>
   \<not> success (fst (createFeatureFilm env_down world0 new_data ''u1'')) \<and>
   \<not> success (fst (createFeatureFilm env_update_fails world0 data_with_poster ''u1'')) \<and>
   calls (snd (createFeatureFilm env_update_fails world0 data_with_poster ''u1'')) = [AddFilm, UpdateFilm] \<and>
   \<not> success (fst (updateFeatureFilm env_down world0 ''f1'' new_data)) \<and>
   calls (snd (updateFeatureFilm env_down world0 ''f1'' new_data)) = [UpdateFilm]"
proof -
  have ok: "fails env_ok AddFilm = None" "fails env_ok UpdateFilm = None" "fails env_ok GetFilm = None"
    by (simp_all add: env_ok_def)
  have ex: "map_of (films world0) ''f1'' \<noteq> None" by (simp add: world0_def)
  have down: "fails env_down AddFilm = Some (ThrownError ''The store is unavailable'')"
    "updateFilm env_down world0 ''f1''
       (overlay (prepareFilmDataForFirestore new_data) (fileUploadData env_down new_data)) =
     Inl (ThrownError ''The store is unavailable'')"
    by (simp_all add: env_down_def updateFilm_def)
  have files: "fails env_update_fails AddFilm = None" "hasFiles data_with_poster"
    "has_keys (fileUploadData env_update_fails data_with_poster)"
    "fails env_update_fails UpdateFilm = Some (ThrownError ''The store is unavailable'')"
    by (simp_all add: env_update_fails_def env_ok_def data_with_poster_def new_data_def hasFiles_def
        fileUploadData_def uploadFeatureFilmFiles_def has_keys_def no_fields_def)
  have c: "calls world0 = []" by (simp add: world0_def)
  from guest_sync_failure_swallowed [where env = env_ok and ?env2.0 = env_down
      and ?env3.0 = env_update_fails and w = world0 and fd = new_data and ?fd3.0 = data_with_poster
      and filmId = "''f1''" and userId = "''u1''" and x = None
      and y = "Some ThrownOther" and t = "ThrownError ''The store is unavailable''"]
    guest_sync_failure_swallowed [where env = env_ok and ?env2.0 = env_down
      and ?env3.0 = env_update_fails and w = world0 and fd = new_data and ?fd3.0 = data_with_poster
      and filmId = "''f1''" and userId = "''u1''" and x = "Some ThrownOther"
      and y = None and t = "ThrownError ''The store is unavailable''"]
    ok ex down files c
  show ?thesis by auto
qed

section \<open>The legacy conversion\<close>

lemma stills_ok:
  "(\<exists>x. legacy_stills L now = Inr x) = (case l_galleryUrls L of VStr s \<Rightarrow> s = [] | _ \<Rightarrow> True)"
  by (simp add: legacy_stills_def split: jsv.splits list.splits)

lemma cast_ok:
  "(\<exists>x. legacy_cast L = Inr x) = (case l_mainActors L of VStr s \<Rightarrow> True | v \<Rightarrow> \<not> truthy_v v)"
  by (simp add: legacy_cast_def split: jsv.splits)

lemma slug_ok:
  "(\<exists>x. legacy_slug L = Inr x) =
     (truthy_v (l_slug L) \<or>
       (case v_or (l_titleEn L) (v_or (l_title L) (VStr ''untitled'')) of
          VStr s \<Rightarrow> True | _ \<Rightarrow> False))"
  by (simp add: legacy_slug_def split: jsv.splits)

lemma convert_returns:
  "(\<exists>e. convertLegacyToEnhanced now year L = Inr e) =
     ((\<exists>x. legacy_stills L now = Inr x) \<and> (\<exists>x. legacy_cast L = Inr x) \<and>
      (\<exists>x. legacy_slug L = Inr x))"
  unfolding convertLegacyToEnhanced_def
  by (cases "legacy_stills L now"; cases "legacy_cast L"; cases "legacy_slug L") simp_all

lemma convert_returns_iff:
  "(\<exists>e. convertLegacyToEnhanced now year L = Inr e) = convertible L"
  unfolding convert_returns stills_ok cast_ok slug_ok convertible_def by (rule refl)

lemma convert_crew:
  assumes "convertLegacyToEnhanced now year L = Inr e"
  shows "e_crew e =
     \<lparr> crew_name = v_or (l_director L) (VStr ''Unknown''),
       crew_role = ''Director'', department = ''Direction'' \<rparr> #
     (if truthy_v (l_producer L)
      then [\<lparr> crew_name = l_producer L, crew_role = ''Producer'', department = ''Production'' \<rparr>]
      else [])"
  using assms unfolding convertLegacyToEnhanced_def
  by (cases "legacy_stills L now"; cases "legacy_cast L"; cases "legacy_slug L"; auto)

text \<open>
  C7 as the specification states it fails: a film whose \<open>mainActors\<close> is stored as an
  array makes the conversion throw.
\<close>

theorem legacy_array_actors_counterexample:
  "convertLegacyToEnhanced 1000 2025 legacy_array_actors =
     Inl (TypeError ''legacyData.mainActors.split is not a function'')"
  by (simp add: convertLegacyToEnhanced_def legacy_stills_def legacy_cast_def
      legacy_array_actors_def legacy_film_a_def legacy_blank_def)

text \<open>
  C7 (amended). \<open>convertLegacyToEnhanced\<close> returns an enhanced film exactly on the
  legacy films in which \<open>galleryUrls\<close> is not a non-empty string, \<open>mainActors\<close> is a
  string or falsy, and either \<open>slug\<close> is truthy or the first truthy one of \<open>titleEn\<close>
  and \<open>title\<close> is a string or both are falsy; on every other film it throws. Whenever it
  returns, the crew of the result is not empty: its first entry is the Director entry,
  named after the legacy director when that value is truthy (a non-empty string, for one)
  and \<open>Unknown\<close> otherwise; a Producer entry named after the legacy producer follows
  exactly when that value is truthy; and there is no other entry.
\<close>

theorem legacy_crew_has_director:
  "((\<exists>r. convertLegacyToEnhanced now year L = Inr r) = convertible L) \<and>
   (convertLegacyToEnhanced now year L = Inr e \<longrightarrow>
      e_crew e \<noteq> [] \<and>
      hd (e_crew e) =
        \<lparr> crew_name = (if truthy_v (l_director L) then l_director L else VStr ''Unknown''),
          crew_role = ''Director'', department = ''Direction'' \<rparr> \<and>
      tl (e_crew e) =
        (if truthy_v (l_producer L)
         then [\<lparr> crew_name = l_producer L, crew_role = ''Producer'',
                 department = ''Production'' \<rparr>]
         else []))"
proof (intro conjI impI)
  show "(\<exists>r. convertLegacyToEnhanced now year L = Inr r) = convertible L"
    by (rule convert_returns_iff)
next
  assume r: "convertLegacyToEnhanced now year L = Inr e"
  note c = convert_crew [OF r]
  show "e_crew e \<noteq> []" by (simp add: c)
  show "hd (e_crew e) =
        \<lparr> crew_name = (if truthy_v (l_director L) then l_director L else VStr ''Unknown''),
          crew_role = ''Director'', department = ''Direction'' \<rparr>"
    by (simp add: c v_or_def)
  show "tl (e_crew e) =
        (if truthy_v (l_producer L)
         then [\<lparr> crew_name = l_producer L, crew_role = ''Producer'',
                 department = ''Production'' \<rparr>]
         else [])"
    by (simp add: c)
qed

theorem legacy_crew_has_director_witness:
  "convertible legacy_film_b \<and>
   convertLegacyToEnhanced 1000 2025 legacy_film_b =
     Inr (projr (convertLegacyToEnhanced 1000 2025 legacy_film_b)) \<and>
   e_crew (projr (convertLegacyToEnhanced 1000 2025 legacy_film_b)) =
     [\<lparr> crew_name = VStr ''Dee'', crew_role = ''Director'', department = ''Direction'' \<rparr>,
      \<lparr> crew_name = VStr ''Pat'', crew_role = ''Producer'', department = ''Production'' \<rparr>] \<and>
   convertible legacy_film_a \<and>
   convertLegacyToEnhanced 1000 2025 legacy_film_a =
     Inr (projr (convertLegacyToEnhanced 1000 2025 legacy_film_a)) \<and>
   e_crew (projr (convertLegacyToEnhanced 1000 2025 legacy_film_a)) =
     [\<lparr> crew_name = VStr ''Unknown'', crew_role = ''Director'', department = ''Direction'' \<rparr>]"
proof -
  have cb: "convertible legacy_film_b" and ca: "convertible legacy_film_a"
    by (simp_all add: convertible_def legacy_film_b_def legacy_film_a_def legacy_blank_def v_or_def)
  have rb: "convertLegacyToEnhanced 1000 2025 legacy_film_b =
      Inr (projr (convertLegacyToEnhanced 1000 2025 legacy_film_b))"
  proof -
    from legacy_crew_has_director [of 1000 2025 legacy_film_b] cb
    obtain r where "convertLegacyToEnhanced 1000 2025 legacy_film_b = Inr r" by blast
    then show ?thesis by simp
  qed
  have ra: "convertLegacyToEnhanced 1000 2025 legacy_film_a =
      Inr (projr (convertLegacyToEnhanced 1000 2025 legacy_film_a))"
  proof -
    from legacy_crew_has_director [of 1000 2025 legacy_film_a] ca
    obtain r where "convertLegacyToEnhanced 1000 2025 legacy_film_a = Inr r" by blast
    then show ?thesis by simp
  qed
  have pb: "truthy_v (l_director legacy_film_b)" "l_director legacy_film_b = VStr ''Dee''"
    "truthy_v (l_producer legacy_film_b)" "l_producer legacy_film_b = VStr ''Pat''"
    by (simp_all add: legacy_film_b_def legacy_film_a_def legacy_blank_def)
  have pa: "\<not> truthy_v (l_director legacy_film_a)" "\<not> truthy_v (l_producer legacy_film_a)"
    by (simp_all add: legacy_film_a_def legacy_blank_def)
  have eb: "e_crew (projr (convertLegacyToEnhanced 1000 2025 legacy_film_b)) =
     [\<lparr> crew_name = VStr ''Dee'', crew_role = ''Director'', department = ''Direction'' \<rparr>,
      \<lparr> crew_name = VStr ''Pat'', crew_role = ''Producer'', department = ''Production'' \<rparr>]"
    using legacy_crew_has_director [of 1000 2025 legacy_film_b
        "projr (convertLegacyToEnhanced 1000 2025 legacy_film_b)"] rb pb
    by (cases "e_crew (projr (convertLegacyToEnhanced 1000 2025 legacy_film_b))") simp_all
  have ea: "e_crew (projr (convertLegacyToEnhanced 1000 2025 legacy_film_a)) =
     [\<lparr> crew_name = VStr ''Unknown'', crew_role = ''Director'', department = ''Direction'' \<rparr>]"
    using legacy_crew_has_director [of 1000 2025 legacy_film_a
        "projr (convertLegacyToEnhanced 1000 2025 legacy_film_a)"] ra pa
    by (cases "e_crew (projr (convertLegacyToEnhanced 1000 2025 legacy_film_a))") simp_all
  from cb rb eb ca ra ea show ?thesis by simp
qed

text \<open>
  What the conversion does with the doubled fields: the array field wins whenever it is an
  array, the singular field is used when there is no array and it is truthy, and the
  default when there is neither. An empty array wins too.
\<close>

lemma legacy_coalescing:
  assumes "convertLegacyToEnhanced now year L = Inr e"
  shows "e_genres e =
     (case l_genres L of VArr gs \<Rightarrow> gs
      | _ \<Rightarrow> (if truthy_v (l_genre L) then [l_genre L] else []))"
    and "e_language e =
     (case l_languages L of VArr ls \<Rightarrow> ls
      | _ \<Rightarrow> (if truthy_v (l_language L) then [l_language L] else [VStr ''Unknown'']))"
    and "e_country e =
     (case l_countries L of VArr cs \<Rightarrow> (case cs of [] \<Rightarrow> VUndefined | c # rest \<Rightarrow> c)
      | _ \<Rightarrow> v_or (l_country L) (VStr ''Unknown''))"
  using assms unfolding convertLegacyToEnhanced_def
  by (cases "legacy_stills L now"; cases "legacy_cast L"; cases "legacy_slug L"; auto)+

text \<open>
  C8. The result is to have a string as \<open>country\<close> and a non-empty \<open>language\<close> for every
  legacy film. For a film whose \<open>countries\<close> and \<open>languages\<close> are empty arrays the code
  returns a film with an undefined \<open>country\<close> and an empty \<open>language\<close>, although the film
  has a \<open>country\<close> and a \<open>language\<close> of the old style.
\<close>

theorem legacy_empty_arrays_lose_defaults:
  "map_sum id e_country (convertLegacyToEnhanced 1000 2025 legacy_empty_arrays) = Inr VUndefined \<and>
   map_sum id e_language (convertLegacyToEnhanced 1000 2025 legacy_empty_arrays) = Inr [] \<and>
   map_sum id e_genres (convertLegacyToEnhanced 1000 2025 legacy_empty_arrays) = Inr []"
  by (simp add: convertLegacyToEnhanced_def legacy_stills_def legacy_cast_def legacy_slug_def
      legacy_empty_arrays_def legacy_blank_def v_or_def)

end
